theory Spec2Isabelle
  imports Complex_Main
begin

section \<open>Numbers\<close>

text \<open>
  The program computes in C++ \<^verbatim>\<open>double\<close>. The model computes in exact real arithmetic
  (rounding, overflow and underflow are not modelled) extended by NaN. IEEE 754 gives
  \<^verbatim>\<open>0.0/0.0 = NaN\<close>, every arithmetic operation with a NaN operand is NaN, and every ordered
  comparison with a NaN operand is false. A nonzero number divided by zero is an infinity in
  IEEE 754. The model has no infinities: \<open>ddiv\<close> maps every division by zero to NaN. The
  testers divide by zero only when the numerator is zero or NaN, where the quotient is NaN
  in IEEE 754 too (lemmas \<open>Plane_zero_denominator\<close>, \<open>Sphere_zero_denominator\<close>,
  \<open>Sphere_zero_radius\<close>, \<open>normalize_zero_length\<close> and \<open>Cube_denominator_nonzero\<close> below).
\<close>

datatype double = Num real | NaN

fun dadd :: "double \<Rightarrow> double \<Rightarrow> double" where
  "dadd (Num a) (Num b) = Num (a + b)"
| "dadd _ _ = NaN"

fun dsub :: "double \<Rightarrow> double \<Rightarrow> double" where
  "dsub (Num a) (Num b) = Num (a - b)"
| "dsub _ _ = NaN"

fun dmul :: "double \<Rightarrow> double \<Rightarrow> double" where
  "dmul (Num a) (Num b) = Num (a * b)"
| "dmul _ _ = NaN"

fun ddiv :: "double \<Rightarrow> double \<Rightarrow> double" where
  "ddiv (Num a) (Num b) = (if b = 0 then NaN else Num (a / b))"
| "ddiv _ _ = NaN"

fun dneg :: "double \<Rightarrow> double" where
  "dneg (Num a) = Num (- a)"
| "dneg NaN = NaN"

fun dlt :: "double \<Rightarrow> double \<Rightarrow> bool" where
  "dlt (Num a) (Num b) = (a < b)"
| "dlt _ _ = False"

definition dgt :: "double \<Rightarrow> double \<Rightarrow> bool" where
  "dgt a b = dlt b a"

fun fabs :: "double \<Rightarrow> double" where
  "fabs (Num a) = Num \<bar>a\<bar>"
| "fabs NaN = NaN"

text \<open>The C library functions: a negative argument of \<^verbatim>\<open>sqrt\<close> and an argument of
  \<^verbatim>\<open>asin\<close> outside [-1, 1] are domain errors and return NaN.\<close>

fun dsqrt :: "double \<Rightarrow> double" where
  "dsqrt (Num a) = (if a < 0 then NaN else Num (sqrt a))"
| "dsqrt NaN = NaN"

fun asin :: "double \<Rightarrow> double" where
  "asin (Num a) = (if - 1 \<le> a \<and> a \<le> 1 then Num (arcsin a) else NaN)"
| "asin NaN = NaN"

fun atan2 :: "double \<Rightarrow> double \<Rightarrow> double" where
  "atan2 (Num b) (Num a) =
     (if 0 < a then Num (arctan (b / a))
      else if a < 0 then (if 0 \<le> b then Num (arctan (b / a) + pi) else Num (arctan (b / a) - pi))
      else if 0 < b then Num (pi / 2)
      else if b < 0 then Num (- pi / 2)
      else Num 0)"
| "atan2 _ _ = NaN"

text \<open>Modelled from the spec: \<^verbatim>\<open>constants.h\<close> is not among the sources; \<^verbatim>\<open>PI\<close> is \<open>\<pi>\<close>.\<close>

definition PI :: double where
  "PI = Num pi"

section \<open>Vectors and rays\<close>

text \<open>Modelled from the spec: \<^verbatim>\<open>vector.h\<close> is not among the sources. The spec gives the
  vector three real components and addition, scalar scaling, dot product, squared length
  and normalization (each component divided by the length); subtraction is used by the
  sphere tester.\<close>

datatype Vector = Vector (vx: double) (vy: double) (vz: double)

definition vadd :: "Vector \<Rightarrow> Vector \<Rightarrow> Vector" where
  "vadd a b = Vector (dadd (vx a) (vx b)) (dadd (vy a) (vy b)) (dadd (vz a) (vz b))"

definition vsub :: "Vector \<Rightarrow> Vector \<Rightarrow> Vector" where
  "vsub a b = Vector (dsub (vx a) (vx b)) (dsub (vy a) (vy b)) (dsub (vz a) (vz b))"

definition vscale :: "Vector \<Rightarrow> double \<Rightarrow> Vector" where
  "vscale a m = Vector (dmul (vx a) m) (dmul (vy a) m) (dmul (vz a) m)"

definition dot :: "Vector \<Rightarrow> Vector \<Rightarrow> double" where
  "dot a b = dadd (dadd (dmul (vx a) (vx b)) (dmul (vy a) (vy b))) (dmul (vz a) (vz b))"

definition lengthSqr :: "Vector \<Rightarrow> double" where
  "lengthSqr a = dot a a"

definition normalize :: "Vector \<Rightarrow> Vector" where
  "normalize a =
     (let len = dsqrt (lengthSqr a)
      in Vector (ddiv (vx a) len) (ddiv (vy a) len) (ddiv (vz a) len))"

record Ray =
  start :: Vector
  dir :: Vector

text \<open>Modelled from the spec: the axis swaps \<^verbatim>\<open>project\<close> and \<^verbatim>\<open>unproject\<close> are declared
  outside the sources. \<open>project v a b c\<close> stores the components of \<open>v\<close> at the indices
  \<open>a\<close>, \<open>b\<close>, \<open>c\<close> of the result; \<open>unproject\<close> reads them back from there.\<close>

fun component :: "Vector \<Rightarrow> nat \<Rightarrow> double" where
  "component w i = (if i = 0 then vx w else if i = 1 then vy w else vz w)"

fun set_component :: "Vector \<Rightarrow> nat \<Rightarrow> double \<Rightarrow> Vector" where
  "set_component w i c =
     (if i = 0 then Vector c (vy w) (vz w)
      else if i = 1 then Vector (vx w) c (vz w)
      else Vector (vx w) (vy w) c)"

definition project :: "Vector \<Rightarrow> nat \<Rightarrow> nat \<Rightarrow> nat \<Rightarrow> Vector" where
  "project w a b c =
     set_component (set_component (set_component w a (vx w)) b (vy w)) c (vz w)"

definition unproject :: "Vector \<Rightarrow> nat \<Rightarrow> nat \<Rightarrow> nat \<Rightarrow> Vector" where
  "unproject w a b c = Vector (component w a) (component w b) (component w c)"

definition project_ray :: "Ray \<Rightarrow> nat \<Rightarrow> nat \<Rightarrow> nat \<Rightarrow> Ray" where
  "project_ray r a b c = r\<lparr>start := project (start r) a b c, dir := project (dir r) a b c\<rparr>"

section \<open>Intersection records and geometries\<close>

text \<open>A geometry object is identified by its address; \<^verbatim>\<open>IntersectionData::g\<close> holds the
  address of the geometry that was hit and is compared by identity only. The fields of
  \<^verbatim>\<open>IntersectionData\<close> carry the prefix \<open>d_\<close>.\<close>

type_synonym addr = nat

record IntersectionData =
  d_p :: Vector
  d_normal :: Vector
  d_dist :: double
  d_u :: double
  d_v :: double
  d_g :: addr

text \<open>Each node carries its own address (\<^verbatim>\<open>this\<close>). The virtual \<^verbatim>\<open>boolOp\<close> of a CSG node
  is declared outside the sources and is a parameter of the node.\<close>

datatype Geometry =
    Plane addr double
  | Sphere addr Vector double
  | Cube addr Vector double
  | CsgOp addr "bool \<Rightarrow> bool \<Rightarrow> bool" Geometry Geometry

fun addr_of :: "Geometry \<Rightarrow> addr" where
  "addr_of (Plane this y) = this"
| "addr_of (Sphere this center R) = this"
| "addr_of (Cube this center side) = this"
| "addr_of (CsgOp this boolOp left right) = this"

section \<open>Plane\<close>

definition Plane_guard :: "double \<Rightarrow> Ray \<Rightarrow> bool" where
  "Plane_guard y ray \<longleftrightarrow>
     (dgt (vy (start ray)) y \<and> dgt (vy (dir ray)) (Num (- (1 / 10 ^ 9)))) \<or>
     (dlt (vy (start ray)) y \<and> dlt (vy (dir ray)) (Num (1 / 10 ^ 9)))"

definition Plane_mult :: "double \<Rightarrow> Ray \<Rightarrow> double" where
  "Plane_mult y ray =
     (let yDiff = vy (dir ray);
          wantYDiff = dsub (vy (start ray)) y
      in ddiv wantYDiff (dneg yDiff))"

definition Plane_intersect :: "addr \<Rightarrow> double \<Rightarrow> Ray \<Rightarrow> IntersectionData \<Rightarrow> bool \<times> IntersectionData" where
  "Plane_intersect this y ray data =
     (if Plane_guard y ray then (False, data)
      else
        let mult = Plane_mult y ray in
        if dgt mult (d_dist data) then (False, data)
        else
          let p = vadd (start ray) (vscale (dir ray) mult) in
          (True, data\<lparr>d_p := p, d_dist := mult, d_normal := Vector (Num 0) (Num 1) (Num 0),
                       d_u := vx p, d_v := vz p, d_g := this\<rparr>))"

section \<open>Sphere\<close>

definition Sphere_A :: "Ray \<Rightarrow> double" where
  "Sphere_A ray = lengthSqr (dir ray)"

definition Sphere_B :: "Vector \<Rightarrow> Ray \<Rightarrow> double" where
  "Sphere_B center ray = dmul (Num 2) (dot (vsub (start ray) center) (dir ray))"

definition Sphere_C :: "Vector \<Rightarrow> double \<Rightarrow> Ray \<Rightarrow> double" where
  "Sphere_C center R ray = dsub (lengthSqr (vsub (start ray) center)) (dmul R R)"

definition Sphere_Dscr :: "Vector \<Rightarrow> double \<Rightarrow> Ray \<Rightarrow> double" where
  "Sphere_Dscr center R ray =
     dsub (dmul (Sphere_B center ray) (Sphere_B center ray))
          (dmul (dmul (Num 4) (Sphere_A ray)) (Sphere_C center R ray))"

definition Sphere_x1 :: "Vector \<Rightarrow> double \<Rightarrow> Ray \<Rightarrow> double" where
  "Sphere_x1 center R ray =
     ddiv (dadd (dneg (Sphere_B center ray)) (dsqrt (Sphere_Dscr center R ray)))
          (dmul (Num 2) (Sphere_A ray))"

definition Sphere_x2 :: "Vector \<Rightarrow> double \<Rightarrow> Ray \<Rightarrow> double" where
  "Sphere_x2 center R ray =
     ddiv (dsub (dneg (Sphere_B center ray)) (dsqrt (Sphere_Dscr center R ray)))
          (dmul (Num 2) (Sphere_A ray))"

text \<open>The candidate root: the closer solution, replaced by the other one when it is behind
  the ray origin.\<close>

definition Sphere_sol :: "Vector \<Rightarrow> double \<Rightarrow> Ray \<Rightarrow> double" where
  "Sphere_sol center R ray =
     (let sol = Sphere_x2 center R ray in
      if dlt sol (Num 0) then Sphere_x1 center R ray else sol)"

text \<open>The argument the tester hands to \<^verbatim>\<open>asin\<close> for a hit point \<open>p\<close>.\<close>

definition Sphere_asin_arg :: "Vector \<Rightarrow> double \<Rightarrow> Vector \<Rightarrow> double" where
  "Sphere_asin_arg center R p = ddiv (dsub (vy p) (vy center)) R"

definition Sphere_intersect :: "addr \<Rightarrow> Vector \<Rightarrow> double \<Rightarrow> Ray \<Rightarrow> IntersectionData \<Rightarrow> bool \<times> IntersectionData" where
  "Sphere_intersect this center R ray info =
     (if dlt (Sphere_Dscr center R ray) (Num 0) then (False, info)
      else
        let sol = Sphere_sol center R ray in
        if dlt sol (Num 0) then (False, info)
        else if dgt sol (d_dist info) then (False, info)
        else
          let p = vadd (start ray) (vscale (dir ray) sol) in
          (True, info\<lparr>d_dist := sol, d_p := p, d_normal := normalize (vsub p center),
                       d_u := ddiv (dadd PI (atan2 (dsub (vz p) (vz center)) (dsub (vx p) (vx center))))
                                   (dmul (Num 2) PI),
                       d_v := dsub (Num 1)
                                (ddiv (dadd (ddiv PI (Num 2)) (asin (Sphere_asin_arg center R p))) PI),
                       d_g := this\<rparr>))"

section \<open>Cube\<close>

text \<open>One iteration of the loop over \<open>side = -1, 1\<close> in \<^verbatim>\<open>intersectCubeSide\<close>; the state is
  the flag \<open>found\<close> and the record.\<close>

definition Cube_mult :: "Ray \<Rightarrow> Vector \<Rightarrow> double \<Rightarrow> real \<Rightarrow> double" where
  "Cube_mult ray center halfSide side =
     (let yDiff = vy (dir ray);
          wantYDiff = dsub (vy (start ray)) (dadd (vy center) (dmul (Num side) halfSide))
      in ddiv wantYDiff (dneg yDiff))"

definition Cube_outside :: "Vector \<Rightarrow> Vector \<Rightarrow> double \<Rightarrow> bool" where
  "Cube_outside p center halfSide \<longleftrightarrow>
     dlt (vx p) (dsub (vx center) halfSide) \<or>
     dgt (vx p) (dadd (vx center) halfSide) \<or>
     dlt (vz p) (dsub (vz center) halfSide) \<or>
     dgt (vz p) (dadd (vz center) halfSide)"

definition Cube_side_step ::
  "Ray \<Rightarrow> Vector \<Rightarrow> double \<Rightarrow> real \<Rightarrow> bool \<times> IntersectionData \<Rightarrow> bool \<times> IntersectionData" where
  "Cube_side_step ray center halfSide side st =
     (let found = fst st; data = snd st;
          mult = Cube_mult ray center halfSide side
      in
      if dlt mult (Num 0) then (found, data)
      else if dgt mult (d_dist data) then (found, data)
      else
        let p = vadd (start ray) (vscale (dir ray) mult) in
        if Cube_outside p center halfSide then (found, data)
        else (True, data\<lparr>d_p := p, d_dist := mult, d_normal := Vector (Num 0) (Num side) (Num 0),
                          d_u := dsub (vx p) (vx center), d_v := dsub (vz p) (vz center)\<rparr>))"

definition intersectCubeSide ::
  "double \<Rightarrow> Ray \<Rightarrow> Vector \<Rightarrow> IntersectionData \<Rightarrow> bool \<times> IntersectionData" where
  "intersectCubeSide side ray center data =
     (if dlt (fabs (vy (dir ray))) (Num (1 / 10 ^ 9)) then (False, data)
      else
        let halfSide = dmul side (Num (1 / 2)) in
        Cube_side_step ray center halfSide 1
          (Cube_side_step ray center halfSide (- 1) (False, data)))"

definition Cube_intersect :: "addr \<Rightarrow> Vector \<Rightarrow> double \<Rightarrow> Ray \<Rightarrow> IntersectionData \<Rightarrow> bool \<times> IntersectionData" where
  "Cube_intersect this center side ray data0 =
     (let (found, data) = intersectCubeSide side ray center data0;
          (found, data) =
            (case intersectCubeSide side (project_ray ray 1 0 2) (project center 1 0 2) data of
               (True, data') \<Rightarrow>
                 (True, data'\<lparr>d_normal := unproject (d_normal data') 1 0 2,
                              d_p := unproject (d_p data') 1 0 2\<rparr>)
             | (False, data') \<Rightarrow> (found, data'));
          (found, data) =
            (case intersectCubeSide side (project_ray ray 0 2 1) (project center 0 2 1) data of
               (True, data') \<Rightarrow>
                 (True, data'\<lparr>d_normal := unproject (d_normal data') 0 2 1,
                              d_p := unproject (d_p data') 0 2 1\<rparr>)
             | (False, data') \<Rightarrow> (found, data'))
      in (found, if found then data\<lparr>d_g := this\<rparr> else data))"

section \<open>CSG\<close>

text \<open>\<^verbatim>\<open>std::sort\<close> with the comparison \<^verbatim>\<open>a.dist < b.dist\<close>. The order of records with
  equal distance is unspecified in C++; the model keeps their order (insertion sort).\<close>

fun insert_by_dist :: "IntersectionData \<Rightarrow> IntersectionData list \<Rightarrow> IntersectionData list" where
  "insert_by_dist a [] = [a]"
| "insert_by_dist a (b # bs) =
     (if dlt (d_dist b) (d_dist a) then b # insert_by_dist a bs else a # b # bs)"

definition sort_by_dist :: "IntersectionData list \<Rightarrow> IntersectionData list" where
  "sort_by_dist xs = foldr insert_by_dist xs []"

text \<open>The flip at one merged hit: \<^verbatim>\<open>current.g == left\<close> selects the flag.\<close>

definition CsgOp_flip :: "addr \<Rightarrow> bool \<times> bool \<Rightarrow> IntersectionData \<Rightarrow> bool \<times> bool" where
  "CsgOp_flip left ins current =
     (if d_g current = left then (\<not> fst ins, snd ins) else (fst ins, \<not> snd ins))"

text \<open>The sweep over the merged list, from the flags \<open>(inL, inR)\<close>.\<close>

fun CsgOp_sweep ::
  "addr \<Rightarrow> (bool \<Rightarrow> bool \<Rightarrow> bool) \<Rightarrow> bool \<times> bool \<Rightarrow> IntersectionData list \<Rightarrow> IntersectionData
     \<Rightarrow> bool \<times> IntersectionData" where
  "CsgOp_sweep left boolOp ins [] data = (False, data)"
| "CsgOp_sweep left boolOp ins (current # rest) data =
     (let ins' = CsgOp_flip left ins current in
      if boolOp (fst ins') (snd ins') then
        (if dgt (d_dist current) (d_dist data) then (False, data) else (True, current))
      else CsgOp_sweep left boolOp ins' rest data)"

text \<open>A local \<^verbatim>\<open>IntersectionData temp\<close> is not initialised in C++. The model starts it from
  a fixed record and sets its \<open>d_dist\<close> to \<open>1e99\<close> before the probe. The choice of the other
  fields cannot be observed: a tester reads only \<open>d_dist\<close> and overwrites every field when it
  reports a hit (lemma \<open>probe_fields_irrelevant\<close> below).\<close>

definition uninitialised :: IntersectionData where
  "uninitialised =
     \<lparr>d_p = Vector (Num 0) (Num 0) (Num 0), d_normal = Vector (Num 0) (Num 0) (Num 0),
      d_dist = Num 0, d_u = Num 0, d_v = Num 0, d_g = 0\<rparr>"

definition probe :: IntersectionData where
  "probe = uninitialised\<lparr>d_dist := Num (10 ^ 99)\<rparr>"

text \<open>The loop of \<^verbatim>\<open>findAllIntersections\<close> has no iteration bound; a run that does not
  leave the loop is the value \<open>None\<close> (lemma \<open>findAllIntersections_diverges\<close> below shows
  one). The first argument is the child's \<^verbatim>\<open>intersect\<close>.\<close>

partial_function (option) findAllIntersections ::
  "(Ray \<Rightarrow> IntersectionData \<Rightarrow> (bool \<times> IntersectionData) option) \<Rightarrow> Ray \<Rightarrow> double
     \<Rightarrow> IntersectionData list \<Rightarrow> IntersectionData list option" where
  "findAllIntersections geom ray currentLength l =
     (case geom ray probe of
        None \<Rightarrow> None
      | Some r \<Rightarrow>
          if \<not> fst r then Some l
          else
            let temp = (snd r)\<lparr>d_dist := dadd (d_dist (snd r)) currentLength\<rparr> in
            findAllIntersections geom
              (ray\<lparr>start := vadd (d_p temp) (vscale (dir ray) (Num (1 / 10 ^ 6)))\<rparr>)
              (d_dist temp) (l @ [temp]))"

primrec intersect :: "Geometry \<Rightarrow> Ray \<Rightarrow> IntersectionData \<Rightarrow> (bool \<times> IntersectionData) option" where
  "intersect (Plane this y) = (\<lambda>ray data. Some (Plane_intersect this y ray data))"
| "intersect (Sphere this center R) = (\<lambda>ray data. Some (Sphere_intersect this center R ray data))"
| "intersect (Cube this center side) = (\<lambda>ray data. Some (Cube_intersect this center side ray data))"
| "intersect (CsgOp this boolOp left right) = (\<lambda>ray data.
     case findAllIntersections (intersect left) ray (Num 0) [] of
       None \<Rightarrow> None
     | Some L \<Rightarrow>
         (case findAllIntersections (intersect right) ray (Num 0) [] of
            None \<Rightarrow> None
          | Some R \<Rightarrow>
              Some (CsgOp_sweep (addr_of left) boolOp
                      (length L mod 2 = 1, length R mod 2 = 1)
                      (sort_by_dist (L @ R)) data)))"

section \<open>Well-formed inputs\<close>

text \<open>An input is finite when each of its numbers is a real number: not NaN and, the model
  having none, not an infinity.\<close>

fun is_num :: "double \<Rightarrow> bool" where
  "is_num (Num a) = True"
| "is_num NaN = False"

definition finite_vector :: "Vector \<Rightarrow> bool" where
  "finite_vector w \<longleftrightarrow> is_num (vx w) \<and> is_num (vy w) \<and> is_num (vz w)"

definition finite_ray :: "Ray \<Rightarrow> bool" where
  "finite_ray r \<longleftrightarrow> finite_vector (start r) \<and> finite_vector (dir r)"

text \<open>The hypothesis under which the slab tests of a cube are monotone: the ray, the centre
  and the side are finite numbers. The other variants need no such hypothesis.\<close>

fun finite_if_cube :: "Geometry \<Rightarrow> Ray \<Rightarrow> bool" where
  "finite_if_cube (Cube this center side) ray \<longleftrightarrow>
     finite_ray ray \<and> finite_vector center \<and> is_num side"
| "finite_if_cube geom ray \<longleftrightarrow> True"

section \<open>Trees\<close>

text \<open>The primitives of a tree, left to right.\<close>

fun leaves :: "Geometry \<Rightarrow> Geometry list" where
  "leaves (CsgOp this boolOp left right) = leaves left @ leaves right"
| "leaves geom = [geom]"

fun is_primitive :: "Geometry \<Rightarrow> bool" where
  "is_primitive (CsgOp this boolOp left right) = False"
| "is_primitive geom = True"

section \<open>Relations between distances and records\<close>

text \<open>The comparison \<^verbatim>\<open><=\<close>, and the relation between the distance of a record before
  and after a slab test: unchanged, or replaced by a number that is not greater.\<close>

fun dle :: "double \<Rightarrow> double \<Rightarrow> bool" where
  "dle (Num a) (Num b) = (a \<le> b)"
| "dle _ _ = False"

definition not_raised :: "double \<Rightarrow> double \<Rightarrow> bool" where
  "not_raised e d \<longleftrightarrow> d = e \<or> (is_num d \<and> \<not> dgt d e)"

section \<open>The faces of a cube, as the specification describes them\<close>

text \<open>The specification tests three axis pairs; each face lies on the plane
  \<open>center[k] + s * side / 2\<close> for an axis \<open>k\<close> (0 for x, 1 for y, 2 for z) and \<open>s = -1, 1\<close>.
  \<open>Cube_face_t\<close> is the ray parameter at which the ray meets that plane. The face is a
  candidate when the direction component along \<open>k\<close> has magnitude at least \<open>1e-9\<close>, the
  parameter is not negative (forward), and the hit point lies within half a side of the
  centre on the two other axes (in bounds).\<close>

definition Cube_face_t :: "Vector \<Rightarrow> double \<Rightarrow> Ray \<Rightarrow> nat \<Rightarrow> real \<Rightarrow> double" where
  "Cube_face_t center side ray k s =
     ddiv (dsub (component (start ray) k)
                (dadd (component center k) (dmul (Num s) (dmul side (Num (1 / 2))))))
          (dneg (component (dir ray) k))"

definition Cube_face_candidate :: "Vector \<Rightarrow> double \<Rightarrow> Ray \<Rightarrow> nat \<Rightarrow> real \<Rightarrow> bool" where
  "Cube_face_candidate center side ray k s \<longleftrightarrow>
     (let h = dmul side (Num (1 / 2));
          t = Cube_face_t center side ray k s;
          q = vadd (start ray) (vscale (dir ray) t)
      in \<not> dlt (fabs (component (dir ray) k)) (Num (1 / 10 ^ 9)) \<and>
         \<not> dlt t (Num 0) \<and>
         list_all (\<lambda>j. \<not> dlt (component q j) (dsub (component center j) h) \<and>
                        \<not> dgt (component q j) (dadd (component center j) h))
                  (filter (\<lambda>j. j \<noteq> k) [0, 1, 2]))"

definition Cube_axis_candidates :: "Vector \<Rightarrow> double \<Rightarrow> Ray \<Rightarrow> nat \<Rightarrow> double list" where
  "Cube_axis_candidates center side ray k =
     map (Cube_face_t center side ray k) (filter (Cube_face_candidate center side ray k) [- 1, 1])"

definition Cube_candidates :: "Vector \<Rightarrow> double \<Rightarrow> Ray \<Rightarrow> double list" where
  "Cube_candidates center side ray = concat (map (Cube_axis_candidates center side ray) [1, 0, 2])"

text \<open>The state of the three slab tests after the candidates \<open>cs\<close> have been tried on a
  record that held the distance \<open>e\<close> on entry: a hit was found exactly when some candidate
  does not exceed \<open>e\<close>, the distance then is the least candidate, and otherwise it is still
  \<open>e\<close>. \<open>Cube_side_ok\<close> is the acceptance test of one loop iteration apart from the comparison
  with the record.\<close>

definition nearest_inv :: "double \<Rightarrow> double list \<Rightarrow> bool \<Rightarrow> double \<Rightarrow> bool" where
  "nearest_inv e cs found cur \<longleftrightarrow>
     (found \<longleftrightarrow> list_ex (\<lambda>t. \<not> dgt t e) cs) \<and>
     (found \<longrightarrow> cur \<in> set cs \<and> list_all (\<lambda>t. \<not> dlt t cur) cs) \<and>
     (\<not> found \<longrightarrow> cur = e)"

definition Cube_side_ok :: "Ray \<Rightarrow> Vector \<Rightarrow> double \<Rightarrow> real \<Rightarrow> bool" where
  "Cube_side_ok ray center halfSide side \<longleftrightarrow>
     \<not> dlt (Cube_mult ray center halfSide side) (Num 0) \<and>
     \<not> Cube_outside (vadd (start ray) (vscale (dir ray) (Cube_mult ray center halfSide side)))
          center halfSide"

text \<open>Two records that agree in every field but the owner.\<close>

definition same_but_owner :: "IntersectionData \<Rightarrow> IntersectionData \<Rightarrow> bool" where
  "same_but_owner a b \<longleftrightarrow> a\<lparr>d_g := 0\<rparr> = b\<lparr>d_g := 0\<rparr>"

section \<open>Example scene\<close>

text \<open>A ray along the z axis from \<open>z = -5\<close>; three cubes of side 2, of which \<open>ex_cubeB\<close>
  is off the ray; the union of the first two, and its intersection with the third.\<close>

definition ex_ray :: Ray where
  "ex_ray = \<lparr>start = Vector (Num 0) (Num 0) (Num (- 5)), dir = Vector (Num 0) (Num 0) (Num 1)\<rparr>"

definition ex_cubeA :: Geometry where
  "ex_cubeA = Cube 1 (Vector (Num 0) (Num 0) (Num 0)) (Num 2)"

definition ex_cubeB :: Geometry where
  "ex_cubeB = Cube 2 (Vector (Num 10) (Num 0) (Num 0)) (Num 2)"

definition ex_cubeC :: Geometry where
  "ex_cubeC = Cube 3 (Vector (Num 0) (Num 0) (Num 1)) (Num 2)"

definition ex_union :: Geometry where
  "ex_union = CsgOp 11 (\<or>) ex_cubeA ex_cubeB"

definition ex_nested :: Geometry where
  "ex_nested = CsgOp 10 (\<and>) ex_union ex_cubeC"

definition ex_hitA :: IntersectionData where
  "ex_hitA = \<lparr>d_p = Vector (Num 0) (Num 0) (Num (- 1)), d_normal = Vector (Num 0) (Num 0) (Num (- 1)),
      d_dist = Num 4, d_u = Num 0, d_v = Num 0, d_g = 1\<rparr>"

definition ex_hitC1 :: IntersectionData where
  "ex_hitC1 = \<lparr>d_p = Vector (Num 0) (Num 0) (Num 0), d_normal = Vector (Num 0) (Num 0) (Num (- 1)),
      d_dist = Num 5, d_u = Num 0, d_v = Num 0, d_g = 3\<rparr>"

definition ex_hitC2 :: IntersectionData where
  "ex_hitC2 = \<lparr>d_p = Vector (Num 0) (Num 0) (Num 2), d_normal = Vector (Num 0) (Num 0) (Num 1),
      d_dist = Num (7 - 1 / 10 ^ 6), d_u = Num 0, d_v = Num 0, d_g = 3\<rparr>"

text \<open>A unit sphere with a ray of zero direction, and the plane \<open>y = 0\<close> with a ray
  straight down from height 5.\<close>

definition ex_sphere :: Geometry where
  "ex_sphere = Sphere 4 (Vector (Num 0) (Num 0) (Num 0)) (Num 1)"

definition ex_still_ray :: Ray where
  "ex_still_ray = \<lparr>start = Vector (Num 0) (Num 0) (Num 0), dir = Vector (Num 0) (Num 0) (Num 0)\<rparr>"

definition ex_nan_hit :: IntersectionData where
  "ex_nan_hit = \<lparr>d_p = Vector NaN NaN NaN, d_normal = Vector NaN NaN NaN,
      d_dist = NaN, d_u = NaN, d_v = NaN, d_g = 4\<rparr>"

definition ex_plane :: Geometry where
  "ex_plane = Plane 5 (Num 0)"

definition ex_ray_down :: Ray where
  "ex_ray_down = \<lparr>start = Vector (Num 0) (Num 5) (Num 0), dir = Vector (Num 0) (Num (- 1)) (Num 0)\<rparr>"

definition ex_plane_hit :: IntersectionData where
  "ex_plane_hit = \<lparr>d_p = Vector (Num 0) (Num 0) (Num 0), d_normal = Vector (Num 0) (Num 1) (Num 0),
      d_dist = Num 5, d_u = Num 0, d_v = Num 0, d_g = 5\<rparr>"

text \<open>A ray starting at the centre of the unit sphere, a sphere off the ray, a ray lying in
  the plane \<open>y = 0\<close>, a sphere of radius zero on the ray, and the records these produce.\<close>

definition ex_ray_inside :: Ray where
  "ex_ray_inside = \<lparr>start = Vector (Num 0) (Num 0) (Num 0), dir = Vector (Num 0) (Num 0) (Num 1)\<rparr>"

definition ex_sphere_far :: Geometry where
  "ex_sphere_far = Sphere 6 (Vector (Num 10) (Num 0) (Num 0)) (Num 1)"

definition ex_ray_in_plane :: Ray where
  "ex_ray_in_plane = \<lparr>start = Vector (Num 0) (Num 0) (Num 0), dir = Vector (Num 1) (Num 0) (Num 0)\<rparr>"

definition ex_plane_nan_hit :: IntersectionData where
  "ex_plane_nan_hit = \<lparr>d_p = Vector NaN NaN NaN, d_normal = Vector (Num 0) (Num 1) (Num 0),
      d_dist = NaN, d_u = NaN, d_v = NaN, d_g = 5\<rparr>"




text \<open>A cube whose centre has a NaN component, a ray that meets all three of its axis
  pairs, the record the Y slab test writes and the record \<^verbatim>\<open>Cube::intersect\<close> returns.\<close>

definition ex_nan_cube :: Geometry where
  "ex_nan_cube = Cube 8 (Vector NaN (Num 0) (Num 0)) (Num 2)"

definition ex_ray_skew :: Ray where
  "ex_ray_skew = \<lparr>start = Vector (Num 0) (Num (- 2)) (Num 0), dir = Vector (Num 1) (Num 1) (Num (1 / 2))\<rparr>"

definition ex_skew_hit :: IntersectionData where
  "ex_skew_hit = \<lparr>d_p = Vector (Num 2) (Num 0) (Num 1), d_normal = Vector (Num 0) (Num 0) (Num 1),
      d_dist = Num 2, d_u = NaN, d_v = Num 0, d_g = 8\<rparr>"

definition ex_skew_y_hit :: IntersectionData where
  "ex_skew_y_hit = \<lparr>d_p = Vector (Num 1) (Num (- 1)) (Num (1 / 2)), d_normal = Vector (Num 0) (Num (- 1)) (Num 0),
      d_dist = Num 1, d_u = NaN, d_v = Num (1 / 2), d_g = 0\<rparr>"

section \<open>Auxiliary lemmas\<close>

subsection \<open>Definitions to unfold on concrete inputs\<close>

lemmas ex_defs = ex_ray_def ex_cubeA_def ex_cubeB_def ex_cubeC_def ex_union_def ex_nested_def
  ex_hitA_def ex_hitC1_def ex_hitC2_def

lemmas eval_defs = Cube_intersect_def intersectCubeSide_def Cube_side_step_def Cube_mult_def
  Cube_outside_def project_def unproject_def project_ray_def probe_def uninitialised_def dgt_def
  vadd_def vscale_def Let_def sort_by_dist_def CsgOp_flip_def

lemmas Sphere_defs = Sphere_intersect_def Sphere_sol_def Sphere_x1_def Sphere_x2_def Sphere_Dscr_def
  Sphere_A_def Sphere_B_def Sphere_C_def Sphere_asin_arg_def lengthSqr_def dot_def vsub_def
  normalize_def PI_def

lemmas Plane_defs = Plane_intersect_def Plane_guard_def Plane_mult_def

subsection \<open>The enumeration loop\<close>

lemma findAllIntersections_all:
  assumes run: "findAllIntersections geom ray cl l = Some y"
    and step: "\<And>r h c. geom r probe = Some (True, h) \<Longrightarrow> J c \<Longrightarrow>
                 Q (h\<lparr>d_dist := dadd (d_dist h) c\<rparr>) \<and> J (dadd (d_dist h) c)"
    and init: "list_all Q l" "J cl"
  shows "list_all Q y"
  using run step init
proof (induction arbitrary: rule: findAllIntersections.raw_induct[rotated 1, consumes 1, case_names body])
  case (body findAll geom ray cl l y)
  note eq = body.hyps
  note prems = body.prems
  show ?case
  proof (cases "geom ray probe")
    case None
    with eq show ?thesis by simp
  next
    case (Some r)
    show ?thesis
    proof (cases "fst r")
      case False
      with Some eq prems(2) show ?thesis by simp
    next
      case True
      then have r: "geom ray probe = Some (True, snd r)"
        using Some by (cases r) simp
      from prems(1)[OF r prems(3)]
      have q: "Q ((snd r)\<lparr>d_dist := dadd (d_dist (snd r)) cl\<rparr>)"
        and j: "J (dadd (d_dist (snd r)) cl)" by simp_all
      from eq Some True
      have rec: "findAll geom
              (ray\<lparr>start := vadd (d_p (snd r)) (vscale (dir ray) (Num (1 / 10 ^ 6)))\<rparr>)
              (dadd (d_dist (snd r)) cl)
              (l @ [(snd r)\<lparr>d_dist := dadd (d_dist (snd r)) cl\<rparr>]) = Some y"
        by (simp add: Let_def)
      show ?thesis
        by (rule body.IH[OF rec prems(1)]) (use q j prems(2) in simp_all)
    qed
  qed
qed

subsection \<open>Plane\<close>

lemma Plane_intersect_False:
  "Plane_intersect this y ray data = (False, d') \<Longrightarrow> d' = data"
  by (auto simp: Plane_intersect_def Let_def split: if_splits)

lemma Plane_intersect_True:
  assumes "Plane_intersect this y ray data = (True, d')"
  shows "\<not> Plane_guard y ray" "d_dist d' = Plane_mult y ray" "\<not> dgt (d_dist d') (d_dist data)"
    "d_g d' = this"
  using assms by (auto simp: Plane_intersect_def Let_def split: if_splits)

lemma Plane_mult_not_negative:
  "\<not> Plane_guard y ray \<Longrightarrow> \<not> dlt (Plane_mult y ray) (Num 0)"
  by (cases "vy (start ray)"; cases y; cases "vy (dir ray)")
     (auto simp: Plane_guard_def Plane_mult_def dgt_def Let_def zero_less_divide_iff)

subsection \<open>Sphere\<close>

lemma Sphere_intersect_False:
  "Sphere_intersect this center R ray data = (False, d') \<Longrightarrow> d' = data"
  by (auto simp: Sphere_intersect_def Let_def split: if_splits)

lemma Sphere_intersect_True:
  assumes "Sphere_intersect this center R ray data = (True, d')"
  shows "\<not> dlt (Sphere_Dscr center R ray) (Num 0)" "d_dist d' = Sphere_sol center R ray"
    "\<not> dlt (d_dist d') (Num 0)" "\<not> dgt (d_dist d') (d_dist data)" "d_g d' = this"
  using assms by (auto simp: Sphere_intersect_def Let_def split: if_splits)

subsection \<open>Cube\<close>

lemma Cube_side_step_cases:
  "Cube_side_step ray center h s st = st \<or>
   (fst (Cube_side_step ray center h s st) \<and>
    d_dist (snd (Cube_side_step ray center h s st)) = Cube_mult ray center h s \<and>
    \<not> dlt (Cube_mult ray center h s) (Num 0) \<and>
    \<not> dgt (Cube_mult ray center h s) (d_dist (snd st)) \<and>
    d_g (snd (Cube_side_step ray center h s st)) = d_g (snd st))"
  by (cases st) (simp add: Cube_side_step_def Let_def)

lemma Cube_side_step_False:
  "\<not> fst (Cube_side_step ray center h s st) \<Longrightarrow> Cube_side_step ray center h s st = st"
  using Cube_side_step_cases[of ray center h s st] by auto

lemma intersectCubeSide_False:
  assumes "intersectCubeSide side ray center data = (False, d')"
  shows "d' = data"
proof (cases "dlt (fabs (vy (dir ray))) (Num (1 / 10 ^ 9))")
  case True
  with assms show ?thesis by (simp add: intersectCubeSide_def)
next
  case False
  define h where "h = dmul side (Num (1 / 2))"
  define s1 where "s1 = Cube_side_step ray center h (- 1) (False, data)"
  from assms False have e: "Cube_side_step ray center h 1 s1 = (False, d')"
    by (simp add: intersectCubeSide_def Let_def h_def s1_def)
  then have "Cube_side_step ray center h 1 s1 = s1"
    using Cube_side_step_False[of ray center h 1 s1] by simp
  with e have "s1 = (False, d')" by simp
  then have "Cube_side_step ray center h (- 1) (False, data) = (False, data)"
    using Cube_side_step_False[of ray center h "- 1" "(False, data)"] by (simp add: s1_def)
  with \<open>s1 = (False, d')\<close> show ?thesis by (simp add: s1_def)
qed

lemma Cube_intersect_False:
  assumes "Cube_intersect this center side ray data = (False, d')"
  shows "d' = data"
proof -
  obtain f1 d1 where a1: "intersectCubeSide side ray center data = (f1, d1)"
    by (cases "intersectCubeSide side ray center data")
  obtain f2 d2 where a2: "intersectCubeSide side (project_ray ray 1 0 2) (project center 1 0 2) d1 = (f2, d2)"
    by (cases "intersectCubeSide side (project_ray ray 1 0 2) (project center 1 0 2) d1")
  from assms a1 a2 have f: "\<not> f1" "\<not> f2"
    by (auto simp: Cube_intersect_def Let_def split: prod.splits bool.splits if_splits)
  obtain f3 d3 where a3: "intersectCubeSide side (project_ray ray 0 2 1) (project center 0 2 1) d2 = (f3, d3)"
    by (cases "intersectCubeSide side (project_ray ray 0 2 1) (project center 0 2 1) d2")
  from assms a1 a2 a3 f have f3: "\<not> f3" and r: "d' = d3"
    by (auto simp: Cube_intersect_def Let_def split: prod.splits bool.splits if_splits)
  from a1 f have "d1 = data" using intersectCubeSide_False by simp
  moreover from a2 f have "d2 = d1" using intersectCubeSide_False by simp
  moreover from a3 f3 have "d3 = d2" using intersectCubeSide_False by simp
  ultimately show ?thesis using r by simp
qed

subsection \<open>CSG\<close>

lemma set_insert_by_dist: "set (insert_by_dist a bs) = insert a (set bs)"
  by (induction bs) auto

lemma set_sort_by_dist: "set (sort_by_dist xs) = set xs"
  by (induction xs) (simp_all add: sort_by_dist_def set_insert_by_dist)

lemma CsgOp_sweep_False:
  "CsgOp_sweep left boolOp ins xs data = (False, d') \<Longrightarrow> d' = data"
  by (induction xs arbitrary: ins) (auto simp: Let_def split: if_splits)

lemma CsgOp_sweep_True:
  "CsgOp_sweep left boolOp ins xs data = (True, d') \<Longrightarrow>
     d' \<in> set xs \<and> \<not> dgt (d_dist d') (d_dist data)"
  by (induction xs arbitrary: ins) (auto simp: Let_def split: if_splits)

lemma intersect_CsgOp_Some:
  assumes "intersect (CsgOp this boolOp left right) ray data = Some res"
  obtains L R where
    "findAllIntersections (intersect left) ray (Num 0) [] = Some L"
    "findAllIntersections (intersect right) ray (Num 0) [] = Some R"
    "res = CsgOp_sweep (addr_of left) boolOp (length L mod 2 = 1, length R mod 2 = 1)
             (sort_by_dist (L @ R)) data"
  using assms by (auto split: option.splits)

lemma intersect_False:
  "intersect geom ray data = Some (False, d') \<Longrightarrow> d' = data"
proof (cases geom)
  case (CsgOp this boolOp left right)
  assume "intersect geom ray data = Some (False, d')"
  with CsgOp have "intersect (CsgOp this boolOp left right) ray data = Some (False, d')"
    by simp
  then show ?thesis
    by (rule intersect_CsgOp_Some) (simp add: CsgOp_sweep_False[OF sym])
qed (auto dest: Plane_intersect_False Sphere_intersect_False Cube_intersect_False)

subsection \<open>Distances\<close>

lemma dadd_not_negative:
  "\<not> dlt a (Num 0) \<Longrightarrow> \<not> dlt b (Num 0) \<Longrightarrow> \<not> dlt (dadd a b) (Num 0)"
  by (cases a; cases b) auto

lemma not_dgt_trans:
  "is_num b \<Longrightarrow> \<not> dgt b c \<Longrightarrow> \<not> dgt a b \<Longrightarrow> \<not> dgt a c"
  by (cases a; cases b; cases c) (auto simp: dgt_def)

lemma not_dgt_refl: "\<not> dgt a a"
  by (cases a) (auto simp: dgt_def)

subsection \<open>Cube, distances\<close>

lemma intersectCubeSide_True:
  assumes "intersectCubeSide side ray center data = (True, d')"
  shows "\<not> dlt (d_dist d') (Num 0)"
proof -
  define h where "h = dmul side (Num (1 / 2))"
  define s1 where "s1 = Cube_side_step ray center h (- 1) (False, data)"
  define s2 where "s2 = Cube_side_step ray center h 1 s1"
  from assms have g: "\<not> dlt (fabs (vy (dir ray))) (Num (1 / 10 ^ 9))"
    by (auto simp: intersectCubeSide_def split: if_splits)
  with assms have e: "s2 = (True, d')"
    by (simp add: intersectCubeSide_def Let_def h_def s1_def s2_def)
  from Cube_side_step_cases[of ray center h 1 s1] Cube_side_step_cases[of ray center h "- 1" "(False, data)"]
  show ?thesis using e unfolding s1_def[symmetric] s2_def[symmetric] by auto
qed

lemma Cube_intersect_stages:
  obtains f1 d1 f2 d2 f3 d3 where
    "intersectCubeSide side ray center data = (f1, d1)"
    "intersectCubeSide side (project_ray ray 1 0 2) (project center 1 0 2) d1 = (f2, d2)"
    "intersectCubeSide side (project_ray ray 0 2 1) (project center 0 2 1)
       (if f2 then d2\<lparr>d_normal := unproject (d_normal d2) 1 0 2, d_p := unproject (d_p d2) 1 0 2\<rparr> else d2)
     = (f3, d3)"
    "fst (Cube_intersect this center side ray data) = (f1 \<or> f2 \<or> f3)"
    "d_dist (snd (Cube_intersect this center side ray data)) = d_dist d3"
    "fst (Cube_intersect this center side ray data) \<Longrightarrow> d_g (snd (Cube_intersect this center side ray data)) = this"
proof -
  obtain f1 d1 where a1: "intersectCubeSide side ray center data = (f1, d1)"
    by (cases "intersectCubeSide side ray center data")
  obtain f2 d2 where a2: "intersectCubeSide side (project_ray ray 1 0 2) (project center 1 0 2) d1 = (f2, d2)"
    by (cases "intersectCubeSide side (project_ray ray 1 0 2) (project center 1 0 2) d1")
  obtain f3 d3 where a3: "intersectCubeSide side (project_ray ray 0 2 1) (project center 0 2 1)
       (if f2 then d2\<lparr>d_normal := unproject (d_normal d2) 1 0 2, d_p := unproject (d_p d2) 1 0 2\<rparr> else d2)
     = (f3, d3)"
    by (cases "intersectCubeSide side (project_ray ray 0 2 1) (project center 0 2 1)
       (if f2 then d2\<lparr>d_normal := unproject (d_normal d2) 1 0 2, d_p := unproject (d_p d2) 1 0 2\<rparr> else d2)")
  have "fst (Cube_intersect this center side ray data) = (f1 \<or> f2 \<or> f3)"
    using a1 a2 a3 by (cases f2; cases f3) (simp_all add: Cube_intersect_def)
  moreover have "d_dist (snd (Cube_intersect this center side ray data)) = d_dist d3"
    using a1 a2 a3 by (cases f2; cases f3) (simp_all add: Cube_intersect_def)
  moreover have "fst (Cube_intersect this center side ray data) \<Longrightarrow>
      d_g (snd (Cube_intersect this center side ray data)) = this"
    using a1 a2 a3 by (cases f2; cases f3) (simp_all add: Cube_intersect_def split: if_splits)
  ultimately show ?thesis using a1 a2 a3 by (rule that[rotated 3])
qed

lemma Cube_intersect_True:
  assumes "Cube_intersect this center side ray data = (True, d')"
  shows "\<not> dlt (d_dist d') (Num 0) \<and> d_g d' = this"
proof (rule Cube_intersect_stages[where side = side and ray = ray and center = center and data = data and this = this])
  fix f1 d1 f2 d2 f3 d3
  assume a1: "intersectCubeSide side ray center data = (f1, d1)" and
    a2: "intersectCubeSide side (project_ray ray 1 0 2) (project center 1 0 2) d1 = (f2, d2)" and
    a3: "intersectCubeSide side (project_ray ray 0 2 1) (project center 0 2 1)
       (if f2 then d2\<lparr>d_normal := unproject (d_normal d2) 1 0 2, d_p := unproject (d_p d2) 1 0 2\<rparr> else d2)
     = (f3, d3)" and
    f: "fst (Cube_intersect this center side ray data) = (f1 \<or> f2 \<or> f3)" and
    d: "d_dist (snd (Cube_intersect this center side ray data)) = d_dist d3" and
    g: "fst (Cube_intersect this center side ray data) \<Longrightarrow> d_g (snd (Cube_intersect this center side ray data)) = this"
  from g assms have owner: "d_g d' = this" by simp
  from f assms have ff: "f1 \<or> f2 \<or> f3" by simp
  from d assms have dd: "d_dist d' = d_dist d3" by simp
  have "\<not> dlt (d_dist d') (Num 0)"
  proof (cases f3)
    case True
    with a3 have "\<not> dlt (d_dist d3) (Num 0)" by (simp add: intersectCubeSide_True)
    with dd show ?thesis by simp
  next
    case f3: False
    with a3 have e3: "d3 = (if f2 then d2\<lparr>d_normal := unproject (d_normal d2) 1 0 2, d_p := unproject (d_p d2) 1 0 2\<rparr> else d2)"
      by (simp add: intersectCubeSide_False)
    show ?thesis
    proof (cases f2)
      case True
      with a2 have "\<not> dlt (d_dist d2) (Num 0)" by (simp add: intersectCubeSide_True)
      with e3 True dd show ?thesis by simp
    next
      case False
      with a2 have "d2 = d1" by (simp add: intersectCubeSide_False)
      moreover from False f3 ff have f1 by simp
      with a1 have "\<not> dlt (d_dist d1) (Num 0)" by (simp add: intersectCubeSide_True)
      ultimately show ?thesis using e3 False dd by simp
    qed
  qed
  with owner show ?thesis by simp
qed

lemma intersect_primitive_g:
  "is_primitive geom \<Longrightarrow> intersect geom ray data = Some (True, d') \<Longrightarrow> d_g d' = addr_of geom"
  by (cases geom) (auto dest: Plane_intersect_True Sphere_intersect_True Cube_intersect_True)

lemma intersect_CsgOp_True:
  assumes "intersect (CsgOp this boolOp left right) ray data = Some (True, d')"
  obtains L R where
    "findAllIntersections (intersect left) ray (Num 0) [] = Some L"
    "findAllIntersections (intersect right) ray (Num 0) [] = Some R"
    "d' \<in> set L \<union> set R" "\<not> dgt (d_dist d') (d_dist data)"
proof -
  from assms obtain L R where
    L: "findAllIntersections (intersect left) ray (Num 0) [] = Some L" and
    R: "findAllIntersections (intersect right) ray (Num 0) [] = Some R" and
    s: "(True, d') = CsgOp_sweep (addr_of left) boolOp (length L mod 2 = 1, length R mod 2 = 1)
             (sort_by_dist (L @ R)) data"
    by (rule intersect_CsgOp_Some)
  from CsgOp_sweep_True[OF s[symmetric]] have "d' \<in> set L \<union> set R" "\<not> dgt (d_dist d') (d_dist data)"
    by (simp_all add: set_sort_by_dist)
  with L R show ?thesis by (rule that)
qed

lemma intersect_not_negative:
  "intersect geom ray data = Some (True, d') \<Longrightarrow> \<not> dlt (d_dist d') (Num 0)"
proof (induction geom arbitrary: ray data d')
  case (Plane this y)
  then have e: "Plane_intersect this y ray data = (True, d')" by simp
  show ?case
    using Plane_intersect_True(1,2)[OF e] by (simp add: Plane_mult_not_negative)
next
  case (Sphere this center R)
  then show ?case by (auto dest: Sphere_intersect_True)
next
  case (Cube this center side)
  then show ?case by (auto dest: Cube_intersect_True)
next
  case (CsgOp this boolOp left right)
  let ?Q = "\<lambda>h. \<not> dlt (d_dist h) (Num 0)"
  let ?J = "\<lambda>c. \<not> dlt c (Num 0)"
  from CsgOp.prems obtain L R where
    L: "findAllIntersections (intersect left) ray (Num 0) [] = Some L" and
    R: "findAllIntersections (intersect right) ray (Num 0) [] = Some R" and
    m: "d' \<in> set L \<union> set R"
    by (rule intersect_CsgOp_True)
  have "list_all ?Q L"
  proof (rule findAllIntersections_all[OF L, where J = ?J])
    fix r h c
    assume "intersect left r probe = Some (True, h)" and c: "\<not> dlt c (Num 0)"
    then have "\<not> dlt (d_dist h) (Num 0)" by (simp add: CsgOp.IH(1))
    with c show "\<not> dlt (d_dist (h\<lparr>d_dist := dadd (d_dist h) c\<rparr>)) (Num 0) \<and>
        \<not> dlt (dadd (d_dist h) c) (Num 0)"
      by (simp add: dadd_not_negative)
  qed simp_all
  moreover have "list_all ?Q R"
  proof (rule findAllIntersections_all[OF R, where J = ?J])
    fix r h c
    assume "intersect right r probe = Some (True, h)" and c: "\<not> dlt c (Num 0)"
    then have "\<not> dlt (d_dist h) (Num 0)" by (simp add: CsgOp.IH(2))
    with c show "\<not> dlt (d_dist (h\<lparr>d_dist := dadd (d_dist h) c\<rparr>)) (Num 0) \<and>
        \<not> dlt (dadd (d_dist h) c) (Num 0)"
      by (simp add: dadd_not_negative)
  qed simp_all
  ultimately show ?case using m by (auto simp: list_all_iff)
qed

subsection \<open>Owner of a hit\<close>

lemma produced_primitive:
  assumes "is_primitive geom" "intersect geom r probe = Some (True, h)"
  shows "\<exists>leaf\<in>set (leaves geom). is_primitive leaf \<and> d_g h = addr_of leaf \<and>
           (\<exists>r' h'. intersect leaf r' probe = Some (True, h') \<and> h = h'\<lparr>d_dist := d_dist h\<rparr>)"
proof -
  from assms(1) have "geom \<in> set (leaves geom)" by (cases geom) simp_all
  moreover have "d_g h = addr_of geom" using assms by (rule intersect_primitive_g)
  moreover have "h = h\<lparr>d_dist := d_dist h\<rparr>" by simp
  ultimately show ?thesis using assms by blast
qed

lemma produced_CsgOp:
  assumes l: "\<And>r h. intersect left r probe = Some (True, h) \<Longrightarrow>
            \<exists>leaf\<in>set (leaves left). is_primitive leaf \<and> d_g h = addr_of leaf \<and>
              (\<exists>r' h'. intersect leaf r' probe = Some (True, h') \<and> h = h'\<lparr>d_dist := d_dist h\<rparr>)"
    and r: "\<And>r h. intersect right r probe = Some (True, h) \<Longrightarrow>
            \<exists>leaf\<in>set (leaves right). is_primitive leaf \<and> d_g h = addr_of leaf \<and>
              (\<exists>r' h'. intersect leaf r' probe = Some (True, h') \<and> h = h'\<lparr>d_dist := d_dist h\<rparr>)"
    and run: "intersect (CsgOp this boolOp left right) ray data = Some (True, d')"
  shows "\<exists>leaf\<in>set (leaves (CsgOp this boolOp left right)). is_primitive leaf \<and> d_g d' = addr_of leaf \<and>
           (\<exists>r' h'. intersect leaf r' probe = Some (True, h') \<and> d' = h'\<lparr>d_dist := d_dist d'\<rparr>)"
proof -
  let ?Q = "\<lambda>g h. \<exists>leaf\<in>set (leaves g). is_primitive leaf \<and> d_g h = addr_of leaf \<and>
              (\<exists>r' h'. intersect leaf r' probe = Some (True, h') \<and> h = h'\<lparr>d_dist := d_dist h\<rparr>)"
  have upd: "?Q g (h\<lparr>d_dist := c\<rparr>)" if "?Q g h" for g h c
  proof -
    from that obtain leaf r' h' where a: "leaf \<in> set (leaves g)" "is_primitive leaf" "d_g h = addr_of leaf"
      "intersect leaf r' probe = Some (True, h')" "h = h'\<lparr>d_dist := d_dist h\<rparr>" by blast
    from a(5) have "h\<lparr>d_dist := c\<rparr> = h'\<lparr>d_dist := d_dist (h\<lparr>d_dist := c\<rparr>)\<rparr>"
      by (cases h; cases h') simp
    moreover from a(3) have "d_g (h\<lparr>d_dist := c\<rparr>) = addr_of leaf" by simp
    ultimately show ?thesis using a(1,2,4) by blast
  qed
  from run obtain L R where
    L: "findAllIntersections (intersect left) ray (Num 0) [] = Some L" and
    R: "findAllIntersections (intersect right) ray (Num 0) [] = Some R" and
    m: "d' \<in> set L \<union> set R"
    by (rule intersect_CsgOp_True)
  have "list_all (?Q left) L"
    by (rule findAllIntersections_all[OF L, where J = "\<lambda>c. True"]) (use l upd in simp_all)
  moreover have "list_all (?Q right) R"
    by (rule findAllIntersections_all[OF R, where J = "\<lambda>c. True"]) (use r upd in simp_all)
  ultimately have "?Q left d' \<or> ?Q right d'" using m by (auto simp: list_all_iff)
  then show ?thesis by auto
qed

lemma produced_probe:
  "intersect geom r probe = Some (True, h) \<Longrightarrow>
     \<exists>leaf\<in>set (leaves geom). is_primitive leaf \<and> d_g h = addr_of leaf \<and>
       (\<exists>r' h'. intersect leaf r' probe = Some (True, h') \<and> h = h'\<lparr>d_dist := d_dist h\<rparr>)"
proof (induction geom arbitrary: r h)
  case (CsgOp this boolOp left right)
  show ?case by (rule produced_CsgOp[OF CsgOp.IH(1) CsgOp.IH(2) CsgOp.prems])
qed (rule produced_primitive; simp)+

subsection \<open>Missing a geometry\<close>

lemma findAllIntersections_miss:
  "geom ray probe = Some (False, x) \<Longrightarrow> findAllIntersections geom ray cl l = Some l"
  by (subst findAllIntersections.simps) simp

subsection \<open>Distances are not raised\<close>

lemma not_raised_refl: "not_raised e e"
  by (simp add: not_raised_def)

lemma not_raised_trans: "not_raised a b \<Longrightarrow> not_raised b c \<Longrightarrow> not_raised a c"
  unfolding not_raised_def using not_dgt_trans by blast

lemma not_raised_not_dgt: "not_raised e d \<Longrightarrow> \<not> dgt d e"
  by (auto simp: not_raised_def not_dgt_refl)

lemma finite_vector_project: "finite_vector w \<Longrightarrow> finite_vector (project w a b c)"
  by (simp add: finite_vector_def project_def)

lemma finite_ray_project: "finite_ray r \<Longrightarrow> finite_ray (project_ray r a b c)"
  by (simp add: finite_ray_def project_ray_def finite_vector_project)

lemma is_num_iff: "is_num a \<longleftrightarrow> (\<exists>m. a = Num m)"
  by (cases a) simp_all

lemma Cube_mult_is_num:
  assumes "finite_ray ray" "finite_vector center" "is_num h"
    and "\<not> dlt (fabs (vy (dir ray))) (Num (1 / 10 ^ 9))"
  shows "is_num (Cube_mult ray center h s)"
  using assms
  by (auto simp: finite_ray_def finite_vector_def is_num_iff Cube_mult_def Let_def)

lemma Cube_side_step_not_raised:
  assumes "finite_ray ray" "finite_vector center" "is_num h"
    and "\<not> dlt (fabs (vy (dir ray))) (Num (1 / 10 ^ 9))"
  shows "not_raised (d_dist (snd st)) (d_dist (snd (Cube_side_step ray center h s st)))"
  using Cube_side_step_cases[of ray center h s st] Cube_mult_is_num[OF assms, of s]
  by (auto simp: not_raised_def)

lemma intersectCubeSide_not_raised:
  assumes "finite_ray ray" "finite_vector center" "is_num side"
  shows "not_raised (d_dist data) (d_dist (snd (intersectCubeSide side ray center data)))"
proof (cases "dlt (fabs (vy (dir ray))) (Num (1 / 10 ^ 9))")
  case True
  then show ?thesis by (simp add: intersectCubeSide_def not_raised_refl)
next
  case False
  define h where "h = dmul side (Num (1 / 2))"
  have h: "is_num h" using assms(3) by (cases side) (simp_all add: h_def)
  define s1 where "s1 = Cube_side_step ray center h (- 1) (False, data)"
  have 1: "not_raised (d_dist data) (d_dist (snd s1))"
    using Cube_side_step_not_raised[OF assms(1,2) h False, of "(False, data)" "- 1"]
    by (simp add: s1_def)
  have 2: "not_raised (d_dist (snd s1)) (d_dist (snd (Cube_side_step ray center h 1 s1)))"
    by (rule Cube_side_step_not_raised[OF assms(1,2) h False])
  from not_raised_trans[OF 1 2] False show ?thesis
    by (simp add: intersectCubeSide_def Let_def h_def s1_def)
qed

lemma Cube_intersect_not_raised:
  assumes "finite_ray ray" "finite_vector center" "is_num side"
  shows "not_raised (d_dist data) (d_dist (snd (Cube_intersect this center side ray data)))"
proof (rule Cube_intersect_stages[where side = side and ray = ray and center = center and data = data and this = this])
  fix f1 d1 f2 d2 f3 d3
  assume a1: "intersectCubeSide side ray center data = (f1, d1)" and
    a2: "intersectCubeSide side (project_ray ray 1 0 2) (project center 1 0 2) d1 = (f2, d2)" and
    a3: "intersectCubeSide side (project_ray ray 0 2 1) (project center 0 2 1)
       (if f2 then d2\<lparr>d_normal := unproject (d_normal d2) 1 0 2, d_p := unproject (d_p d2) 1 0 2\<rparr> else d2)
     = (f3, d3)" and
    d: "d_dist (snd (Cube_intersect this center side ray data)) = d_dist d3"
  have 1: "not_raised (d_dist data) (d_dist d1)"
    using intersectCubeSide_not_raised[OF assms, of data] a1 by simp
  have 2: "not_raised (d_dist d1) (d_dist d2)"
    using intersectCubeSide_not_raised[OF finite_ray_project[OF assms(1)] finite_vector_project[OF assms(2)] assms(3), of d1 1 0 2 1 0 2] a2
    by simp
  have 3: "not_raised (d_dist d2) (d_dist d3)"
    using intersectCubeSide_not_raised[OF finite_ray_project[OF assms(1)] finite_vector_project[OF assms(2)] assms(3),
        of "(if f2 then d2\<lparr>d_normal := unproject (d_normal d2) 1 0 2, d_p := unproject (d_p d2) 1 0 2\<rparr> else d2)" 0 2 1 0 2 1] a3
    by (simp split: if_splits)
  from not_raised_trans[OF not_raised_trans[OF 1 2] 3] d show ?thesis by simp
qed

lemma intersect_not_dgt:
  assumes "intersect geom ray data = Some (True, d')" "finite_if_cube geom ray"
  shows "\<not> dgt (d_dist d') (d_dist data)"
proof (cases geom)
  case (Plane this y)
  with assms(1) show ?thesis by (auto dest: Plane_intersect_True)
next
  case (Sphere this center R)
  with assms(1) show ?thesis by (auto dest: Sphere_intersect_True)
next
  case (Cube this center side)
  with assms have "snd (Cube_intersect this center side ray data) = d'"
    and f: "finite_ray ray" "finite_vector center" "is_num side" by simp_all
  with Cube_intersect_not_raised[OF f, of data this]
  show ?thesis by (auto dest: not_raised_not_dgt)
next
  case (CsgOp this boolOp left right)
  with assms(1) have "intersect (CsgOp this boolOp left right) ray data = Some (True, d')" by simp
  then show ?thesis by (rule intersect_CsgOp_True)
qed

lemma not_dgt_dle: "is_num a \<Longrightarrow> is_num b \<Longrightarrow> \<not> dgt a b \<Longrightarrow> dle a b"
  by (cases a; cases b) (simp_all add: dgt_def)

subsection \<open>Roots of the sphere equation\<close>

lemma Sphere_A_cases: "Sphere_A ray = NaN \<or> (\<exists>a\<ge>0. Sphere_A ray = Num a)"
  by (cases "vx (dir ray)"; cases "vy (dir ray)"; cases "vz (dir ray)")
     (auto simp: Sphere_A_def lengthSqr_def dot_def)

lemma roots_ordered:
  assumes "A = NaN \<or> (\<exists>a\<ge>0. A = Num a)"
  shows "\<not> dlt (ddiv (dadd (dneg B) (dsqrt D)) (dmul (Num 2) A))
               (ddiv (dsub (dneg B) (dsqrt D)) (dmul (Num 2) A))"
proof (cases A)
  case (Num a)
  with assms have a: "0 \<le> a" by simp
  show ?thesis
  proof (cases "a = 0")
    case True
    with Num show ?thesis by (cases B; cases D) simp_all
  next
    case False
    with a have "0 < 2 * a" by simp
    then have "\<not> (- b + s) / (2 * a) < (- b - s) / (2 * a)" if "0 \<le> s" for b s
      using that by (simp add: divide_less_cancel)
    with Num False show ?thesis by (cases B; cases D) auto
  qed
qed simp

lemma Sphere_roots_ordered: "\<not> dlt (Sphere_x1 center R ray) (Sphere_x2 center R ray)"
  unfolding Sphere_x1_def Sphere_x2_def by (rule roots_ordered) (rule Sphere_A_cases)

lemma quadratic_root:
  fixes a b c t :: real
  assumes a: "a \<noteq> 0" and D: "0 \<le> b\<^sup>2 - 4 * a * c"
    and t: "t = (- b + sqrt (b\<^sup>2 - 4 * a * c)) / (2 * a) \<or> t = (- b - sqrt (b\<^sup>2 - 4 * a * c)) / (2 * a)"
  shows "a * t\<^sup>2 + b * t + c = 0"
proof -
  define s where "s = sqrt (b\<^sup>2 - 4 * a * c)"
  have s2: "s\<^sup>2 = b\<^sup>2 - 4 * a * c" using D by (simp add: s_def)
  from t a have "2 * a * t + b = s \<or> 2 * a * t + b = - s"
    unfolding s_def[symmetric] by (auto simp: field_simps)
  then have "(2 * a * t + b)\<^sup>2 = s\<^sup>2" by auto
  with s2 have "(2 * a * t + b)\<^sup>2 = b\<^sup>2 - 4 * a * c" by simp
  then have "4 * a * (a * t\<^sup>2 + b * t + c) = 0"
    by (simp add: power2_eq_square algebra_simps)
  with a show ?thesis by simp
qed

lemma hit_on_sphere:
  fixes hx hy hz dx dy dz r t :: real
  assumes "(dx\<^sup>2 + dy\<^sup>2 + dz\<^sup>2) * t\<^sup>2 + (2 * (hx * dx + hy * dy + hz * dz)) * t
             + (hx\<^sup>2 + hy\<^sup>2 + hz\<^sup>2 - r\<^sup>2) = 0"
  shows "(hy + dy * t)\<^sup>2 \<le> r\<^sup>2"
proof -
  from assms have "(hx + dx * t)\<^sup>2 + (hy + dy * t)\<^sup>2 + (hz + dz * t)\<^sup>2 = r\<^sup>2"
    by (simp add: power2_eq_square algebra_simps)
  moreover have "0 \<le> (hx + dx * t)\<^sup>2" "0 \<le> (hz + dz * t)\<^sup>2" by simp_all
  ultimately show ?thesis by linarith
qed

lemma Sphere_hit_on_surface:
  assumes hit: "Sphere_intersect this center R ray info = (True, info')"
    and fin: "finite_ray ray" "finite_vector center" "is_num R"
    and A: "dlt (Num 0) (Sphere_A ray)"
  shows "\<exists>q r. dsub (vy (d_p info')) (vy center) = Num q \<and> R = Num r \<and> q\<^sup>2 \<le> r\<^sup>2"
proof -
  from fin obtain sx sy sz dx dy dz cx cy cz r where
    ray: "start ray = Vector (Num sx) (Num sy) (Num sz)" "dir ray = Vector (Num dx) (Num dy) (Num dz)"
    and center: "center = Vector (Num cx) (Num cy) (Num cz)" and r: "R = Num r"
    by (auto simp: finite_ray_def finite_vector_def is_num_iff)
       (metis Vector.collapse)
  define a where "a = dx\<^sup>2 + dy\<^sup>2 + dz\<^sup>2"
  define b where "b = 2 * ((sx - cx) * dx + (sy - cy) * dy + (sz - cz) * dz)"
  define c where "c = (sx - cx)\<^sup>2 + (sy - cy)\<^sup>2 + (sz - cz)\<^sup>2 - r\<^sup>2"
  have qA: "Sphere_A ray = Num a"
    by (simp add: Sphere_A_def lengthSqr_def dot_def ray a_def power2_eq_square)
  have qB: "Sphere_B center ray = Num b"
    by (simp add: Sphere_B_def dot_def vsub_def ray center b_def)
  have qC: "Sphere_C center R ray = Num c"
    by (simp add: Sphere_C_def lengthSqr_def dot_def vsub_def ray center r c_def power2_eq_square)
  have qD: "Sphere_Dscr center R ray = Num (b\<^sup>2 - 4 * a * c)"
    by (simp add: Sphere_Dscr_def qA qB qC power2_eq_square)
  from A qA have a: "0 < a" by simp
  from Sphere_intersect_True(1)[OF hit] qD have D: "0 \<le> b\<^sup>2 - 4 * a * c" by simp
  have x1: "Sphere_x1 center R ray = Num ((- b + sqrt (b\<^sup>2 - 4 * a * c)) / (2 * a))"
    using a D by (simp add: Sphere_x1_def qA qB qD)
  have x2: "Sphere_x2 center R ray = Num ((- b - sqrt (b\<^sup>2 - 4 * a * c)) / (2 * a))"
    using a D by (simp add: Sphere_x2_def qA qB qD)
  obtain t where sol: "Sphere_sol center R ray = Num t"
    and t: "t = (- b + sqrt (b\<^sup>2 - 4 * a * c)) / (2 * a) \<or> t = (- b - sqrt (b\<^sup>2 - 4 * a * c)) / (2 * a)"
    by (cases "(- b - sqrt (b\<^sup>2 - 4 * a * c)) / (2 * a) < 0")
       (simp_all add: Sphere_sol_def x1 x2 Let_def)
  from a have "a \<noteq> 0" by simp
  from quadratic_root[OF this D t]
  have "(dx\<^sup>2 + dy\<^sup>2 + dz\<^sup>2) * t\<^sup>2 + (2 * ((sx - cx) * dx + (sy - cy) * dy + (sz - cz) * dz)) * t
          + ((sx - cx)\<^sup>2 + (sy - cy)\<^sup>2 + (sz - cz)\<^sup>2 - r\<^sup>2) = 0"
    by (simp add: a_def b_def c_def)
  then have "((sy - cy) + dy * t)\<^sup>2 \<le> r\<^sup>2" by (rule hit_on_sphere)
  then have le: "(sy + dy * t - cy)\<^sup>2 \<le> r\<^sup>2" by (simp add: algebra_simps)
  from hit have p: "d_p info' = vadd (start ray) (vscale (dir ray) (Sphere_sol center R ray))"
    by (auto simp: Sphere_intersect_def Let_def split: if_splits)
  have "dsub (vy (d_p info')) (vy center) = Num (sy + dy * t - cy)"
    unfolding p sol by (simp add: ray center vadd_def vscale_def)
  with le r show ?thesis by blast
qed

subsection \<open>Plane guard\<close>

lemma Plane_denominator_nonzero:
  assumes "\<not> Plane_guard y ray" "dlt (vy (start ray)) y \<or> dgt (vy (start ray)) y"
  shows "dlt (Num (1 / 10 ^ 9)) (fabs (vy (dir ray))) \<or> fabs (vy (dir ray)) = Num (1 / 10 ^ 9) \<or> vy (dir ray) = NaN"
  using assms
  by (cases "vy (start ray)"; cases y; cases "vy (dir ray)") (auto simp: Plane_guard_def dgt_def)

subsection \<open>Owners of the hits of a primitive child\<close>

lemma primitive_child_owner:
  assumes "is_primitive geom" "findAllIntersections (intersect geom) ray cl [] = Some L"
  shows "list_all (\<lambda>h. d_g h = addr_of geom) L"
proof (rule findAllIntersections_all[OF assms(2), where J = "\<lambda>c. True"])
  fix r h c
  assume "intersect geom r probe = Some (True, h)"
  with assms(1) have "d_g h = addr_of geom" by (rule intersect_primitive_g)
  then show "d_g (h\<lparr>d_dist := dadd (d_dist h) c\<rparr>) = addr_of geom \<and> True" by simp
qed simp_all

lemma CsgOp_flip_primitive_children:
  assumes "is_primitive left" "is_primitive right" "addr_of left \<noteq> addr_of right"
    and "findAllIntersections (intersect left) ray (Num 0) [] = Some L"
    and "findAllIntersections (intersect right) ray (Num 0) [] = Some R"
  shows "(\<forall>h\<in>set L. CsgOp_flip (addr_of left) ins h = (\<not> fst ins, snd ins)) \<and>
         (\<forall>h\<in>set R. CsgOp_flip (addr_of left) ins h = (fst ins, \<not> snd ins))"
  using primitive_child_owner[OF assms(1,4)] primitive_child_owner[OF assms(2,5)] assms(3)
  by (auto simp: list_all_iff CsgOp_flip_def)

subsection \<open>The nearest candidate of a cube\<close>

lemma nearest_inv_accept:
  assumes "nearest_inv e cs found cur" "list_all is_num cs" "is_num m" "\<not> dgt m cur"
  shows "nearest_inv e (cs @ [m]) True m"
proof -
  from assms(3) obtain m0 where m: "m = Num m0" by (auto simp: is_num_iff)
  show ?thesis
  proof (cases found)
    case True
    with assms(1) obtain c0 where c: "cur = Num c0" "cur \<in> set cs"
      using assms(2) by (auto simp: nearest_inv_def list_all_iff is_num_iff)
    from assms(4) c m have le: "m0 \<le> c0" by (simp add: dgt_def)
    have "\<not> dlt t m" if "t \<in> set cs" for t
    proof -
      from that assms(1) True c have "\<not> dlt t (Num c0)" by (auto simp: nearest_inv_def list_all_iff)
      with le m show ?thesis by (cases t) auto
    qed
    with True assms(1) m show ?thesis
      by (auto simp: nearest_inv_def list_all_iff list_ex_iff)
  next
    case False
    with assms(1) have ce: "cur = e" and none: "\<forall>t\<in>set cs. dgt t e"
      by (auto simp: nearest_inv_def list_ex_iff)
    have "\<not> dlt t m" if "t \<in> set cs" for t
    proof -
      from that none have "dgt t e" by simp
      with assms(4) ce m show ?thesis by (cases t; cases e) (auto simp: dgt_def)
    qed
    with assms(4) ce m show ?thesis
      by (auto simp: nearest_inv_def list_all_iff list_ex_iff)
  qed
qed

lemma nearest_inv_reject:
  assumes "nearest_inv e cs found cur" "list_all is_num cs" "is_num m" "dgt m cur"
  shows "nearest_inv e (cs @ [m]) found cur"
proof -
  from assms(3,4) obtain m0 c0 where m: "m = Num m0" and c: "cur = Num c0" and lt: "c0 < m0"
    by (cases m; cases cur) (auto simp: dgt_def)
  show ?thesis
  proof (cases found)
    case True
    with assms(1) m c lt show ?thesis
      by (auto simp: nearest_inv_def list_all_iff list_ex_iff)
  next
    case False
    with assms(1) have ce: "cur = e" and none: "\<forall>t\<in>set cs. dgt t e"
      by (auto simp: nearest_inv_def list_ex_iff)
    with False m c lt show ?thesis
      by (auto simp: nearest_inv_def list_all_iff list_ex_iff dgt_def)
  qed
qed

lemma Cube_side_step_accept:
  assumes "Cube_side_ok ray center h s" "\<not> dgt (Cube_mult ray center h s) (d_dist (snd st))"
  shows "fst (Cube_side_step ray center h s st)"
    "d_dist (snd (Cube_side_step ray center h s st)) = Cube_mult ray center h s"
  using assms by (simp_all add: Cube_side_step_def Cube_side_ok_def Let_def)

lemma Cube_side_step_skip:
  assumes "\<not> Cube_side_ok ray center h s \<or> dgt (Cube_mult ray center h s) (d_dist (snd st))"
  shows "Cube_side_step ray center h s st = st"
  using assms by (auto simp: Cube_side_step_def Cube_side_ok_def Let_def)

lemma Cube_side_step_found:
  "Cube_side_step ray center h s (f, d) =
     (f \<or> fst (Cube_side_step ray center h s (False, d)), snd (Cube_side_step ray center h s (False, d)))"
  by (simp add: Cube_side_step_def Let_def)

lemma Cube_side_step_inv:
  assumes inv: "nearest_inv e cs (fst st) (d_dist (snd st))" and cs: "list_all is_num cs"
    and m: "is_num (Cube_mult ray center h s)"
  shows "nearest_inv e (cs @ map (Cube_mult ray center h) (filter (Cube_side_ok ray center h) [s]))
           (fst (Cube_side_step ray center h s st)) (d_dist (snd (Cube_side_step ray center h s st)))"
proof (cases "Cube_side_ok ray center h s")
  case ok: True
  show ?thesis
  proof (cases "dgt (Cube_mult ray center h s) (d_dist (snd st))")
    case True
    then have "Cube_side_step ray center h s st = st" by (simp add: Cube_side_step_skip)
    with nearest_inv_reject[OF inv cs m True] ok show ?thesis by simp
  next
    case False
    from nearest_inv_accept[OF inv cs m False] Cube_side_step_accept[OF ok False] ok
    show ?thesis by simp
  qed
next
  case False
  then have "Cube_side_step ray center h s st = st" by (simp add: Cube_side_step_skip)
  with inv False show ?thesis by simp
qed

lemma Cube_axis_candidates_y:
  "Cube_axis_candidates center side ray 1 =
     (if dlt (fabs (vy (dir ray))) (Num (1 / 10 ^ 9)) then []
      else map (Cube_mult ray center (dmul side (Num (1 / 2))))
             (filter (Cube_side_ok ray center (dmul side (Num (1 / 2)))) [- 1, 1]))"
  by (simp add: Cube_axis_candidates_def Cube_face_candidate_def Cube_face_t_def Cube_side_ok_def
      Cube_mult_def Cube_outside_def Let_def)

lemma Cube_axis_candidates_x:
  "Cube_axis_candidates (project center 1 0 2) side (project_ray ray 1 0 2) 1 =
   Cube_axis_candidates center side ray 0"
  by (simp add: Cube_axis_candidates_def Cube_face_candidate_def Cube_face_t_def
      project_def project_ray_def vadd_def vscale_def Let_def conj_commute)

lemma Cube_axis_candidates_z:
  "Cube_axis_candidates (project center 0 2 1) side (project_ray ray 0 2 1) 1 =
   Cube_axis_candidates center side ray 2"
  by (simp add: Cube_axis_candidates_def Cube_face_candidate_def Cube_face_t_def
      project_def project_ray_def vadd_def vscale_def Let_def conj_commute)

lemma is_num_dmul: "is_num a \<Longrightarrow> is_num b \<Longrightarrow> is_num (dmul a b)"
  by (cases a; cases b) simp_all

lemma Cube_axis_candidates_is_num:
  assumes "finite_ray ray" "finite_vector center" "is_num side"
  shows "list_all is_num (Cube_axis_candidates center side ray 1)"
proof (cases "dlt (fabs (vy (dir ray))) (Num (1 / 10 ^ 9))")
  case True
  then show ?thesis by (subst Cube_axis_candidates_y) simp
next
  case False
  have "is_num (dmul side (Num (1 / 2)))" using assms(3) by (simp add: is_num_dmul)
  from Cube_mult_is_num[OF assms(1,2) this False] False show ?thesis
    by (subst Cube_axis_candidates_y) (simp add: list_all_iff)
qed

lemma intersectCubeSide_inv:
  assumes inv: "nearest_inv e cs G (d_dist data)" and cs: "list_all is_num cs"
    and fin: "finite_ray ray" "finite_vector center" "is_num side"
  shows "nearest_inv e (cs @ Cube_axis_candidates center side ray 1)
           (G \<or> fst (intersectCubeSide side ray center data))
           (d_dist (snd (intersectCubeSide side ray center data)))"
proof (cases "dlt (fabs (vy (dir ray))) (Num (1 / 10 ^ 9))")
  case True
  with inv show ?thesis by (subst Cube_axis_candidates_y) (simp add: intersectCubeSide_def)
next
  case False
  define h where "h = dmul side (Num (1 / 2))"
  have h: "is_num h" using fin(3) by (simp add: h_def is_num_dmul)
  note m = Cube_mult_is_num[OF fin(1,2) h False]
  define c1 where "c1 = map (Cube_mult ray center h) (filter (Cube_side_ok ray center h) [- 1])"
  define c2 where "c2 = map (Cube_mult ray center h) (filter (Cube_side_ok ray center h) [1])"
  define s1 where "s1 = Cube_side_step ray center h (- 1) (False, data)"
  define S1 where "S1 = Cube_side_step ray center h (- 1) (G, data)"
  have S1: "S1 = (G \<or> fst s1, snd s1)"
    unfolding S1_def s1_def by (rule Cube_side_step_found)
  have R: "Cube_side_step ray center h 1 S1 =
             (G \<or> fst (Cube_side_step ray center h 1 s1), snd (Cube_side_step ray center h 1 s1))"
  proof -
    have a: "Cube_side_step ray center h 1 s1 =
        (fst s1 \<or> fst (Cube_side_step ray center h 1 (False, snd s1)),
         snd (Cube_side_step ray center h 1 (False, snd s1)))"
      using Cube_side_step_found[of ray center h 1 "fst s1" "snd s1"] by simp
    have b: "Cube_side_step ray center h 1 (G \<or> fst s1, snd s1) =
        ((G \<or> fst s1) \<or> fst (Cube_side_step ray center h 1 (False, snd s1)),
         snd (Cube_side_step ray center h 1 (False, snd s1)))"
      by (rule Cube_side_step_found)
    show ?thesis unfolding S1 b a by auto
  qed
  have i1: "nearest_inv e (cs @ c1) (fst S1) (d_dist (snd S1))"
    unfolding S1_def c1_def by (rule Cube_side_step_inv) (use inv cs m in simp_all)
  have n1: "list_all is_num (cs @ c1)"
    using cs m by (simp add: c1_def list_all_iff)
  have i2: "nearest_inv e ((cs @ c1) @ c2) (fst (Cube_side_step ray center h 1 S1))
              (d_dist (snd (Cube_side_step ray center h 1 S1)))"
    unfolding c2_def by (rule Cube_side_step_inv[OF i1 n1 m])
  have c: "Cube_axis_candidates center side ray 1 = c1 @ c2"
    using False by (subst Cube_axis_candidates_y) (simp add: c1_def c2_def h_def)
  have r: "intersectCubeSide side ray center data = Cube_side_step ray center h 1 s1"
    using False by (simp add: intersectCubeSide_def Let_def h_def s1_def)
  from i2 show ?thesis unfolding R c r by simp
qed

lemma nearest_inv_init: "nearest_inv e [] False e"
  by (simp add: nearest_inv_def)

lemma Cube_intersect_nearest_inv:
  assumes fin: "finite_ray ray" "finite_vector center" "is_num side"
  shows "nearest_inv (d_dist data) (Cube_candidates center side ray)
           (fst (Cube_intersect this center side ray data))
           (d_dist (snd (Cube_intersect this center side ray data)))"
proof (rule Cube_intersect_stages[where side = side and ray = ray and center = center and data = data and this = this])
  fix f1 f2 f3 and d1 d2 d3 :: IntersectionData
  let ?d2' = "if f2 then d2\<lparr>d_normal := unproject (d_normal d2) 1 0 2, d_p := unproject (d_p d2) 1 0 2\<rparr> else d2"
  assume a1: "intersectCubeSide side ray center data = (f1, d1)" and
    a2: "intersectCubeSide side (project_ray ray 1 0 2) (project center 1 0 2) d1 = (f2, d2)" and
    a3: "intersectCubeSide side (project_ray ray 0 2 1) (project center 0 2 1) ?d2' = (f3, d3)" and
    f: "fst (Cube_intersect this center side ray data) = (f1 \<or> f2 \<or> f3)" and
    d: "d_dist (snd (Cube_intersect this center side ray data)) = d_dist d3"
  let ?cy = "Cube_axis_candidates center side ray 1"
  let ?cx = "Cube_axis_candidates center side ray 0"
  let ?cz = "Cube_axis_candidates center side ray 2"
  note fx = finite_ray_project[OF fin(1), of 1 0 2] finite_vector_project[OF fin(2), of 1 0 2] fin(3)
  note fz = finite_ray_project[OF fin(1), of 0 2 1] finite_vector_project[OF fin(2), of 0 2 1] fin(3)
  have ny: "list_all is_num ?cy" by (rule Cube_axis_candidates_is_num[OF fin])
  have nx: "list_all is_num ?cx"
    unfolding Cube_axis_candidates_x[symmetric] by (rule Cube_axis_candidates_is_num[OF fx])
  have 1: "nearest_inv (d_dist data) ([] @ ?cy) (False \<or> f1) (d_dist d1)"
    using intersectCubeSide_inv[OF nearest_inv_init _ fin, where data = data] a1 by simp
  have 2: "nearest_inv (d_dist data) (([] @ ?cy) @ ?cx) ((False \<or> f1) \<or> f2) (d_dist d2)"
    unfolding Cube_axis_candidates_x[symmetric]
    using intersectCubeSide_inv[OF 1 _ fx] ny a2 by simp
  have dd: "d_dist ?d2' = d_dist d2" by simp
  have i2: "nearest_inv (d_dist data) (([] @ ?cy) @ ?cx) ((False \<or> f1) \<or> f2) (d_dist ?d2')"
    unfolding dd by (rule 2)
  have 3: "nearest_inv (d_dist data) ((([] @ ?cy) @ ?cx) @ ?cz) (((False \<or> f1) \<or> f2) \<or> f3) (d_dist d3)"
    unfolding Cube_axis_candidates_z[symmetric]
    using intersectCubeSide_inv[OF i2 _ fz] ny nx a3 by (simp add: Cube_axis_candidates_x)
  from 3 f d show ?thesis by (simp add: Cube_candidates_def)
qed

subsection \<open>The testers read only the distance of the record\<close>

lemma Plane_intersect_reads_dist:
  assumes "d_dist a = d_dist b"
  shows "Plane_intersect this y ray b =
     (fst (Plane_intersect this y ray a), if fst (Plane_intersect this y ray a) then snd (Plane_intersect this y ray a) else b)"
  using assms by (simp add: Plane_intersect_def Let_def)

lemma Sphere_intersect_reads_dist:
  assumes "d_dist a = d_dist b"
  shows "Sphere_intersect this c R ray b =
     (fst (Sphere_intersect this c R ray a), if fst (Sphere_intersect this c R ray a) then snd (Sphere_intersect this c R ray a) else b)"
  using assms by (simp add: Sphere_intersect_def Let_def)

lemma CsgOp_sweep_reads_dist:
  assumes "d_dist a = d_dist b"
  shows "CsgOp_sweep left boolOp ins xs b =
     (fst (CsgOp_sweep left boolOp ins xs a), if fst (CsgOp_sweep left boolOp ins xs a) then snd (CsgOp_sweep left boolOp ins xs a) else b)"
  using assms by (induction xs arbitrary: ins) (simp_all add: Let_def)

lemma same_but_owner_fields:
  assumes "same_but_owner a b"
  shows "d_dist a = d_dist b" "d_p a = d_p b" "d_normal a = d_normal b" "d_u a = d_u b" "d_v a = d_v b"
  using assms unfolding same_but_owner_def by (cases a; cases b; simp)+

lemma same_but_owner_set_owner:
  "same_but_owner a b \<Longrightarrow> a\<lparr>d_g := x\<rparr> = b\<lparr>d_g := x\<rparr>"
  unfolding same_but_owner_def by (cases a; cases b) simp

lemma same_but_owner_unproject:
  "same_but_owner a b \<Longrightarrow>
     same_but_owner (a\<lparr>d_normal := unproject (d_normal a) i j k, d_p := unproject (d_p a) i j k\<rparr>)
                    (b\<lparr>d_normal := unproject (d_normal b) i j k, d_p := unproject (d_p b) i j k\<rparr>)"
  unfolding same_but_owner_def by (cases a; cases b) simp

lemma Cube_side_step_agree:
  assumes "d_dist a = d_dist b"
  shows "(Cube_side_step ray c h s (f, a) = (f, a) \<and> Cube_side_step ray c h s (g, b) = (g, b)) \<or>
         (fst (Cube_side_step ray c h s (f, a)) \<and> fst (Cube_side_step ray c h s (g, b)) \<and>
          same_but_owner (snd (Cube_side_step ray c h s (f, a))) (snd (Cube_side_step ray c h s (g, b))))"
  using assms by (cases a; cases b) (simp add: Cube_side_step_def Let_def same_but_owner_def)

lemma intersectCubeSide_agree:
  assumes "d_dist a = d_dist b"
  shows "fst (intersectCubeSide side ray c b) = fst (intersectCubeSide side ray c a) \<and>
         (fst (intersectCubeSide side ray c a) \<longrightarrow>
            same_but_owner (snd (intersectCubeSide side ray c a)) (snd (intersectCubeSide side ray c b))) \<and>
         (\<not> fst (intersectCubeSide side ray c a) \<longrightarrow>
            snd (intersectCubeSide side ray c a) = a \<and> snd (intersectCubeSide side ray c b) = b)"
proof (cases "dlt (fabs (vy (dir ray))) (Num (1 / 10 ^ 9))")
  case True
  then show ?thesis by (simp add: intersectCubeSide_def)
next
  case False
  define h where "h = dmul side (Num (1 / 2))"
  define a1 where "a1 = Cube_side_step ray c h (- 1) (False, a)"
  define b1 where "b1 = Cube_side_step ray c h (- 1) (False, b)"
  have ra: "intersectCubeSide side ray c a = Cube_side_step ray c h 1 (fst a1, snd a1)"
    and rb: "intersectCubeSide side ray c b = Cube_side_step ray c h 1 (fst b1, snd b1)"
    using False by (simp_all add: intersectCubeSide_def Let_def h_def a1_def b1_def)
  from Cube_side_step_agree[OF assms, of ray c h "- 1" False False]
  consider (skip) "a1 = (False, a)" "b1 = (False, b)"
    | (hit) "fst a1" "fst b1" "same_but_owner (snd a1) (snd b1)"
    unfolding a1_def b1_def by blast
  then show ?thesis
  proof cases
    case skip
    from Cube_side_step_agree[OF assms, of ray c h 1 False False] skip
    show ?thesis unfolding ra rb by auto
  next
    case hit
    from Cube_side_step_agree[OF same_but_owner_fields(1)[OF hit(3)], of ray c h 1 "fst a1" "fst b1"] hit
    show ?thesis unfolding ra rb by auto
  qed
qed

lemma Cube_intersect_reads_dist:
  assumes "d_dist a = d_dist b"
  shows "Cube_intersect this c side ray b =
     (fst (Cube_intersect this c side ray a),
      if fst (Cube_intersect this c side ray a) then snd (Cube_intersect this c side ray a) else b)"
proof -
  let ?r2 = "project_ray ray 1 0 2" and ?c2 = "project c 1 0 2"
  let ?r3 = "project_ray ray 0 2 1" and ?c3 = "project c 0 2 1"
  let ?u = "\<lambda>f d. if f then d\<lparr>d_normal := unproject (d_normal d) 1 0 2, d_p := unproject (d_p d) 1 0 2\<rparr> else d"
  let ?w = "\<lambda>f d. if f then d\<lparr>d_normal := unproject (d_normal d) 0 2 1, d_p := unproject (d_p d) 0 2 1\<rparr> else d"
  obtain f1 a1 where a1: "intersectCubeSide side ray c a = (f1, a1)" by (cases "intersectCubeSide side ray c a")
  obtain g1 b1 where b1: "intersectCubeSide side ray c b = (g1, b1)" by (cases "intersectCubeSide side ray c b")
  obtain f2 a2 where a2: "intersectCubeSide side ?r2 ?c2 a1 = (f2, a2)" by (cases "intersectCubeSide side ?r2 ?c2 a1")
  obtain g2 b2 where b2: "intersectCubeSide side ?r2 ?c2 b1 = (g2, b2)" by (cases "intersectCubeSide side ?r2 ?c2 b1")
  obtain f3 a3 where a3: "intersectCubeSide side ?r3 ?c3 (?u f2 a2) = (f3, a3)"
    by (cases "intersectCubeSide side ?r3 ?c3 (?u f2 a2)")
  obtain g3 b3 where b3: "intersectCubeSide side ?r3 ?c3 (?u g2 b2) = (g3, b3)"
    by (cases "intersectCubeSide side ?r3 ?c3 (?u g2 b2)")
  have ca: "Cube_intersect this c side ray a =
      (f1 \<or> f2 \<or> f3, if f1 \<or> f2 \<or> f3 then (?w f3 a3)\<lparr>d_g := this\<rparr> else ?w f3 a3)"
    using a1 a2 a3 by (cases f2; cases f3) (simp_all add: Cube_intersect_def)
  have cb: "Cube_intersect this c side ray b =
      (g1 \<or> g2 \<or> g3, if g1 \<or> g2 \<or> g3 then (?w g3 b3)\<lparr>d_g := this\<rparr> else ?w g3 b3)"
    using b1 b2 b3 by (cases g2; cases g3) (simp_all add: Cube_intersect_def)
  from intersectCubeSide_agree[OF assms, of side ray c] a1 b1
  have s1: "g1 = f1" "f1 \<Longrightarrow> same_but_owner a1 b1" "\<not> f1 \<Longrightarrow> a1 = a \<and> b1 = b" by auto
  have e1: "d_dist a1 = d_dist b1"
    using s1 assms by (cases f1) (auto dest: same_but_owner_fields(1))
  from intersectCubeSide_agree[OF e1, of side ?r2 ?c2] a2 b2
  have s2: "g2 = f2" "f2 \<Longrightarrow> same_but_owner a2 b2" "\<not> f2 \<Longrightarrow> a2 = a1 \<and> b2 = b1" by auto
  have e2: "d_dist (?u f2 a2) = d_dist (?u g2 b2)"
    using s2 e1 by (cases f2) (auto dest: same_but_owner_fields(1))
  from intersectCubeSide_agree[OF e2, of side ?r3 ?c3] a3 b3
  have s3: "g3 = f3" "f3 \<Longrightarrow> same_but_owner a3 b3" "\<not> f3 \<Longrightarrow> a3 = ?u f2 a2 \<and> b3 = ?u g2 b2" by auto
  have fin: "same_but_owner (?w f3 a3) (?w g3 b3)" if "f1 \<or> f2 \<or> f3"
  proof (cases f3)
    case True
    with s3 show ?thesis by (simp add: same_but_owner_unproject)
  next
    case f3: False
    show ?thesis
    proof (cases f2)
      case True
      with s2 s3 f3 show ?thesis by (simp add: same_but_owner_unproject)
    next
      case False
      with f3 that have f1 by simp
      with s1 s2 s3 f3 False show ?thesis by simp
    qed
  qed
  show ?thesis
  proof (cases "f1 \<or> f2 \<or> f3")
    case True
    from same_but_owner_set_owner[OF fin[OF True], of this] True s1(1) s2(1) s3(1)
    show ?thesis unfolding ca cb by simp
  next
    case False
    with s1 s2 s3 show ?thesis unfolding ca cb by simp
  qed
qed

lemma intersect_reads_dist:
  assumes "d_dist a = d_dist b"
  shows "intersect geom ray b =
     (case intersect geom ray a of None \<Rightarrow> None
      | Some r \<Rightarrow> Some (fst r, if fst r then snd r else b))"
proof (cases geom)
  case (Plane this y)
  then show ?thesis using Plane_intersect_reads_dist[OF assms] by simp
next
  case (Sphere this c R)
  then show ?thesis using Sphere_intersect_reads_dist[OF assms] by simp
next
  case (Cube this c side)
  then show ?thesis using Cube_intersect_reads_dist[OF assms] by simp
next
  case (CsgOp this boolOp left right)
  then show ?thesis using CsgOp_sweep_reads_dist[OF assms]
    by (simp split: option.splits)
qed

lemma probe_fields_irrelevant:
  assumes "d_dist temp = Num (10 ^ 99)"
  shows "intersect geom ray temp = Some (True, h) \<longleftrightarrow> intersect geom ray probe = Some (True, h)"
    and "intersect geom ray temp = None \<longleftrightarrow> intersect geom ray probe = None"
    and "(\<exists>x. intersect geom ray temp = Some (False, x)) \<longleftrightarrow>
         (\<exists>x. intersect geom ray probe = Some (False, x))"
proof -
  from assms have e: "d_dist temp = d_dist probe" "d_dist probe = d_dist temp"
    by (simp_all add: probe_def)
  show "intersect geom ray temp = Some (True, h) \<longleftrightarrow> intersect geom ray probe = Some (True, h)"
    using intersect_reads_dist[OF e(1), of geom ray] intersect_reads_dist[OF e(2), of geom ray]
    by (auto split: option.splits)
  show "intersect geom ray temp = None \<longleftrightarrow> intersect geom ray probe = None"
    using intersect_reads_dist[OF e(1), of geom ray] intersect_reads_dist[OF e(2), of geom ray]
    by (auto split: option.splits)
  show "(\<exists>x. intersect geom ray temp = Some (False, x)) \<longleftrightarrow>
        (\<exists>x. intersect geom ray probe = Some (False, x))"
    using intersect_reads_dist[OF e(1), of geom ray] intersect_reads_dist[OF e(2), of geom ray]
    by (auto split: option.splits)
qed

subsection \<open>Divisions by zero\<close>

text \<open>Whenever a tester divides by zero, the numerator is zero or NaN, so that the quotient is
  NaN in IEEE 754 as it is here; the slab test never divides by zero.\<close>

lemma Plane_zero_denominator:
  assumes "\<not> Plane_guard y ray" "dneg (vy (dir ray)) = Num 0"
  shows "dsub (vy (start ray)) y = Num 0 \<or> dsub (vy (start ray)) y = NaN"
  using assms
  by (cases "vy (start ray)"; cases y; cases "vy (dir ray)") (auto simp: Plane_guard_def dgt_def)

lemma Cube_denominator_nonzero:
  assumes "\<not> dlt (fabs (vy (dir ray))) (Num (1 / 10 ^ 9))"
  shows "dneg (vy (dir ray)) \<noteq> Num 0"
  using assms by (cases "vy (dir ray)") auto

lemma sum_squares_zero:
  fixes a b c :: real
  assumes "a * a + b * b + c * c = 0"
  shows "a = 0 \<and> b = 0 \<and> c = 0"
proof -
  have "0 \<le> a * a" "0 \<le> b * b" "0 \<le> c * c" by simp_all
  with assms have "a * a = 0" "b * b = 0" "c * c = 0" by linarith+
  then show ?thesis by simp
qed

lemma lengthSqr_zero:
  assumes "lengthSqr a = Num 0"
  shows "a = Vector (Num 0) (Num 0) (Num 0)"
proof -
  obtain x y z where a: "a = Vector x y z" by (cases a)
  from assms a show ?thesis
    by (cases x; cases y; cases z) (auto simp: lengthSqr_def dot_def dest: sum_squares_zero)
qed

lemma Sphere_zero_denominator:
  assumes "dmul (Num 2) (Sphere_A ray) = Num 0"
  shows "(dadd (dneg (Sphere_B center ray)) (dsqrt (Sphere_Dscr center R ray)) = Num 0 \<or>
          dadd (dneg (Sphere_B center ray)) (dsqrt (Sphere_Dscr center R ray)) = NaN) \<and>
         (dsub (dneg (Sphere_B center ray)) (dsqrt (Sphere_Dscr center R ray)) = Num 0 \<or>
          dsub (dneg (Sphere_B center ray)) (dsqrt (Sphere_Dscr center R ray)) = NaN)"
proof -
  from assms have "Sphere_A ray = Num 0" by (cases "Sphere_A ray") simp_all
  then have A: "Sphere_A ray = Num 0" and d: "dir ray = Vector (Num 0) (Num 0) (Num 0)"
    by (simp_all add: Sphere_A_def lengthSqr_zero)
  have B: "Sphere_B center ray = Num 0 \<or> Sphere_B center ray = NaN"
    by (cases "vx (vsub (start ray) center)"; cases "vy (vsub (start ray) center)";
        cases "vz (vsub (start ray) center)") (simp_all add: Sphere_B_def dot_def d)
  then have D: "Sphere_Dscr center R ray = Num 0 \<or> Sphere_Dscr center R ray = NaN"
    by (cases "Sphere_C center R ray") (auto simp: Sphere_Dscr_def A)
  from B D show ?thesis by auto
qed

lemma normalize_zero_length:
  assumes "dsqrt (lengthSqr a) = Num 0"
  shows "a = Vector (Num 0) (Num 0) (Num 0)"
proof -
  from assms have "lengthSqr a = Num 0"
    by (cases "lengthSqr a") (auto split: if_splits)
  then show ?thesis by (rule lengthSqr_zero)
qed

lemma dadd_Num: "is_num (dadd a b) \<Longrightarrow> is_num a \<and> is_num b"
  by (cases a; cases b) simp_all

lemma dsub_Num: "is_num (dsub a b) \<Longrightarrow> is_num a \<and> is_num b"
  by (cases a; cases b) simp_all

lemma dmul_Num: "is_num (dmul a b) \<Longrightarrow> is_num a \<and> is_num b"
  by (cases a; cases b) simp_all

lemma ddiv_Num: "is_num (ddiv a b) \<Longrightarrow> is_num a \<and> is_num b \<and> b \<noteq> Num 0"
  by (cases a; cases b) (simp_all split: if_splits)

lemma dneg_Num: "is_num (dneg a) \<Longrightarrow> is_num a"
  by (cases a) simp_all

lemma dsqrt_Num: "is_num (dsqrt a) \<Longrightarrow> is_num a"
  by (cases a) simp_all

lemma lengthSqr_Num: "is_num (lengthSqr a) \<Longrightarrow> finite_vector a"
  unfolding lengthSqr_def dot_def finite_vector_def is_num_iff
  by (cases "vx a"; cases "vy a"; cases "vz a") simp_all

lemma vsub_finite:
  assumes "finite_vector (vsub a b)"
  shows "finite_vector a \<and> finite_vector b"
  using assms unfolding finite_vector_def vsub_def
  by (cases "vx a"; cases "vx b"; cases "vy a"; cases "vy b"; cases "vz a"; cases "vz b") simp_all

lemma Sphere_sol_Num:
  assumes "Sphere_sol center R ray = Num t"
  shows "finite_ray ray \<and> finite_vector center \<and> is_num R \<and> dlt (Num 0) (Sphere_A ray)"
proof -
  let ?n1 = "dadd (dneg (Sphere_B center ray)) (dsqrt (Sphere_Dscr center R ray))"
  let ?n2 = "dsub (dneg (Sphere_B center ray)) (dsqrt (Sphere_Dscr center R ray))"
  from assms have "is_num (Sphere_x1 center R ray) \<or> is_num (Sphere_x2 center R ray)"
    by (auto simp: Sphere_sol_def Let_def is_num_iff split: if_splits)
  then have "is_num (ddiv ?n1 (dmul (Num 2) (Sphere_A ray))) \<or>
             is_num (ddiv ?n2 (dmul (Num 2) (Sphere_A ray)))"
    unfolding Sphere_x1_def Sphere_x2_def .
  then have nn: "is_num ?n1 \<or> is_num ?n2" and a2: "is_num (dmul (Num 2) (Sphere_A ray))"
    and a0: "dmul (Num 2) (Sphere_A ray) \<noteq> Num 0"
    using ddiv_Num by blast+
  from a2 have An: "is_num (Sphere_A ray)" using dmul_Num by blast
  with a0 Sphere_A_cases[of ray] have A: "dlt (Num 0) (Sphere_A ray)" by (auto simp: is_num_iff)
  from An have fd: "finite_vector (dir ray)" unfolding Sphere_A_def by (rule lengthSqr_Num)
  from nn have "is_num (dsqrt (Sphere_Dscr center R ray))"
    using dadd_Num dsub_Num by blast
  then have "is_num (Sphere_Dscr center R ray)" by (rule dsqrt_Num)
  then have "is_num (dmul (dmul (Num 4) (Sphere_A ray)) (Sphere_C center R ray))"
    unfolding Sphere_Dscr_def using dsub_Num by blast
  then have "is_num (Sphere_C center R ray)" using dmul_Num by blast
  then have "is_num (lengthSqr (vsub (start ray) center))" "is_num (dmul R R)"
    unfolding Sphere_C_def using dsub_Num by blast+
  then have "finite_vector (vsub (start ray) center)" "is_num R"
    using lengthSqr_Num dmul_Num by blast+
  with vsub_finite[of "start ray" center] fd A show ?thesis by (simp add: finite_ray_def)
qed

lemma Sphere_zero_radius:
  assumes hit: "Sphere_intersect this center (Num 0) ray info = (True, info')"
  shows "dsub (vy (d_p info')) (vy center) = Num 0 \<or> dsub (vy (d_p info')) (vy center) = NaN"
proof (cases "Sphere_sol center (Num 0) ray")
  case (Num t)
  from Sphere_sol_Num[OF this] Sphere_hit_on_surface[OF hit]
  obtain q where "dsub (vy (d_p info')) (vy center) = Num q" "q\<^sup>2 \<le> 0" by auto
  then show ?thesis by simp
next
  case NaN
  from hit have "d_p info' = vadd (start ray) (vscale (dir ray) (Sphere_sol center (Num 0) ray))"
    by (auto simp: Sphere_intersect_def Let_def split: if_splits)
  with NaN have "vy (d_p info') = NaN"
    by (cases "vy (start ray)"; cases "vy (dir ray)") (simp_all add: vadd_def vscale_def)
  then show ?thesis by simp
qed

subsection \<open>A run of the enumeration loop that never returns\<close>

text \<open>A ray lying in a plane is reported as hit at a NaN point on every probe, so the loop
  of \<^verbatim>\<open>findAllIntersections\<close> does not end and a CSG node over that plane does not return.\<close>

lemma Plane_nan_start_hits:
  assumes "vy (start ray) = NaN \<or> (vy (start ray) = Num 0 \<and> vy (dir ray) = Num 0)"
  shows "fst (Plane_intersect this (Num 0) ray data)"
    and "d_p (snd (Plane_intersect this (Num 0) ray data)) = Vector NaN NaN NaN"
  using assms
  by (cases "vx (start ray)"; cases "vz (start ray)"; cases "vx (dir ray)"; cases "vy (dir ray)"; cases "vz (dir ray)";
      auto simp: Plane_defs dgt_def Let_def vadd_def vscale_def)+

lemma findAllIntersections_in_plane_never_returns:
  assumes "findAllIntersections geom ray cl l = Some y"
    and "geom = intersect (Plane this (Num 0))"
    and "vy (start ray) = NaN \<or> (vy (start ray) = Num 0 \<and> vy (dir ray) = Num 0)"
  shows False
  using assms
proof (induction arbitrary: rule: findAllIntersections.raw_induct[rotated 1, consumes 1, case_names body])
  case (body findAll geom ray cl l y)
  let ?r = "Plane_intersect this (Num 0) ray probe"
  from body.prems(1) have g: "geom ray probe = Some ?r" by simp
  from Plane_nan_start_hits[OF body.prems(2), of this probe]
  have f: "fst ?r" and p: "d_p (snd ?r) = Vector NaN NaN NaN" by simp_all
  let ?ray' = "ray\<lparr>start := vadd (d_p ((snd ?r)\<lparr>d_dist := dadd (d_dist (snd ?r)) cl\<rparr>))
                                 (vscale (dir ray) (Num (1 / 10 ^ 6)))\<rparr>"
  from body.hyps g f
  have rec: "findAll geom ?ray' (d_dist ((snd ?r)\<lparr>d_dist := dadd (d_dist (snd ?r)) cl\<rparr>))
               (l @ [(snd ?r)\<lparr>d_dist := dadd (d_dist (snd ?r)) cl\<rparr>]) = Some y"
    by (simp add: Let_def)
  have "vy (start ?ray') = NaN" using p by (simp add: vadd_def)
  with body.IH[OF rec body.prems(1)] show False by simp
qed

lemma findAllIntersections_diverges:
  "findAllIntersections (intersect ex_plane) ex_ray_in_plane (Num 0) [] = None"
proof (cases "findAllIntersections (intersect ex_plane) ex_ray_in_plane (Num 0) []")
  case (Some y)
  from findAllIntersections_in_plane_never_returns[OF Some, of 5] show ?thesis
    by (simp add: ex_plane_def ex_ray_in_plane_def)
qed simp

lemma CsgOp_over_plane_diverges:
  "intersect (CsgOp this boolOp ex_plane right) ex_ray_in_plane data = None"
  by (simp add: findAllIntersections_diverges)

section \<open>Claims\<close>

subsection \<open>C1\<close>

text \<open>C1, at the input where it fails: the left child of \<open>ex_nested\<close> is itself a CSG node;
  the hit it produces carries the address of a cube, not of the left child, so the sweep
  flips the flag of the right child, and the intersection reports the face of \<open>ex_cubeA\<close>
  at \<open>z = -1\<close>, which is outside \<open>ex_cubeC\<close>.\<close>

theorem CsgOp_nested_left_hit_flips_right:
  "findAllIntersections (intersect ex_union) ex_ray (Num 0) [] = Some [ex_hitA] \<and>
   findAllIntersections (intersect ex_cubeC) ex_ray (Num 0) [] = Some [ex_hitC1, ex_hitC2] \<and>
   d_g ex_hitA \<noteq> addr_of ex_union \<and>
   CsgOp_flip (addr_of ex_union) (True, False) ex_hitA = (True, True) \<and>
   intersect ex_nested ex_ray probe = Some (True, ex_hitA)"
  by (simp add: ex_defs eval_defs findAllIntersections.simps)

subsection \<open>C2\<close>

text \<open>C2, as stated, fails at each of four inputs: a plane hit at exactly the distance the
  record held on entry is accepted, so the distance is not lowered; for a ray of zero
  direction the sphere tester writes a NaN distance; with a NaN distance on entry every
  candidate is accepted; and for a cube whose centre has a NaN component the X slab test
  writes NaN, after which the Z slab test raises the distance from the entry value 1.5
  to 2.\<close>

theorem intersect_dist_not_lowered_counterexample:
  "(intersect ex_plane ex_ray_down (probe\<lparr>d_dist := Num 5\<rparr>) = Some (True, ex_plane_hit) \<and>
    \<not> dlt (d_dist ex_plane_hit) (d_dist (probe\<lparr>d_dist := Num 5\<rparr>))) \<and>
   (intersect ex_sphere ex_still_ray (probe\<lparr>d_dist := Num 5\<rparr>) = Some (True, ex_nan_hit) \<and>
    \<not> dle (d_dist ex_nan_hit) (d_dist (probe\<lparr>d_dist := Num 5\<rparr>))) \<and>
   (intersect ex_plane ex_ray_down (probe\<lparr>d_dist := NaN\<rparr>) = Some (True, ex_plane_hit) \<and>
    \<not> dle (d_dist ex_plane_hit) (d_dist (probe\<lparr>d_dist := NaN\<rparr>))) \<and>
   (intersect ex_nan_cube ex_ray_skew (probe\<lparr>d_dist := Num (3 / 2)\<rparr>) = Some (True, ex_skew_hit) \<and>
    dgt (d_dist ex_skew_hit) (d_dist (probe\<lparr>d_dist := Num (3 / 2)\<rparr>)))"
  by (simp add: ex_plane_def ex_ray_down_def ex_plane_hit_def ex_sphere_def ex_still_ray_def
      ex_nan_hit_def ex_nan_cube_def ex_ray_skew_def ex_skew_hit_def Plane_defs Sphere_defs eval_defs)

text \<open>C2, amended: whenever \<^verbatim>\<open>intersect\<close> returns true and the distance written and the
  distance held on entry are both numbers, the distance written is less than or equal to
  the distance held on entry (equality is accepted); for a cube this needs a ray, a centre
  and a side that are finite numbers, for the other variants no condition on the inputs.
  The record is changed only when \<^verbatim>\<open>intersect\<close> returns true.\<close>

theorem intersect_dist_not_raised:
  "intersect geom ray data = Some (found, d') \<Longrightarrow> finite_if_cube geom ray \<Longrightarrow>
     (found \<longrightarrow> is_num (d_dist d') \<longrightarrow> is_num (d_dist data) \<longrightarrow> dle (d_dist d') (d_dist data)) \<and>
     (d' \<noteq> data \<longrightarrow> found)"
proof (cases found)
  case True
  assume "intersect geom ray data = Some (found, d')" "finite_if_cube geom ray"
  with True have "\<not> dgt (d_dist d') (d_dist data)" by (simp add: intersect_not_dgt)
  with True show ?thesis by (simp add: not_dgt_dle)
next
  case False
  assume "intersect geom ray data = Some (found, d')"
  with False have "d' = data" by (simp add: intersect_False)
  with False show ?thesis by simp
qed

theorem intersect_dist_not_raised_witness:
  "intersect ex_cubeA ex_ray probe = Some (True, ex_hitA) \<and> finite_if_cube ex_cubeA ex_ray \<and>
   is_num (d_dist ex_hitA) \<and> is_num (d_dist probe) \<and>
   dle (d_dist ex_hitA) (d_dist probe) \<and> ex_hitA \<noteq> probe"
proof -
  have r: "intersect ex_cubeA ex_ray probe = Some (True, ex_hitA)"
    by (simp add: ex_defs eval_defs)
  have f: "finite_if_cube ex_cubeA ex_ray"
    by (simp add: ex_cubeA_def ex_ray_def finite_ray_def finite_vector_def)
  have n: "is_num (d_dist ex_hitA)" "is_num (d_dist probe)" "ex_hitA \<noteq> probe"
    by (simp_all add: ex_hitA_def probe_def uninitialised_def)
  from intersect_dist_not_raised[OF r f] r f n show ?thesis by simp
qed

subsection \<open>C3\<close>

text \<open>C3: for every geometry variant and every ray, when \<^verbatim>\<open>intersect\<close> returns false the
  record is returned as it was passed in, every field included; and when the first probe of
  each child of a CSG node reports no hit, the node returns false with the record
  untouched.\<close>

theorem intersect_false_leaves_record:
  "(intersect geom ray data = Some (False, d') \<longrightarrow> d' = data) \<and>
   (intersect left ray probe = Some (False, x) \<and> intersect right ray probe = Some (False, y) \<longrightarrow>
      intersect (CsgOp this boolOp left right) ray data = Some (False, data))"
  by (auto simp: intersect_False findAllIntersections_miss sort_by_dist_def)

theorem intersect_false_leaves_record_witness:
  "intersect ex_cubeB ex_ray probe = Some (False, probe) \<and>
   intersect (CsgOp 12 (\<or>) ex_cubeB ex_cubeB) ex_ray probe = Some (False, probe)"
proof -
  have m: "intersect ex_cubeB ex_ray probe = Some (False, probe)"
    by (simp add: ex_defs eval_defs)
  from intersect_false_leaves_record[where geom = ex_cubeB and ray = ex_ray and data = probe
      and d' = probe and left = ex_cubeB and right = ex_cubeB and x = probe and y = probe
      and this = 12 and boolOp = "(\<or>)"] m
  show ?thesis by blast
qed

subsection \<open>C4\<close>

text \<open>C4, at the input where it fails: for a ray that starts on the plane and runs inside it
  the guard does not fire, the denominator \<open>-dir.y\<close> is zero, and \<^verbatim>\<open>Plane::intersect\<close> returns
  true with a NaN distance and a NaN hit point.\<close>

theorem Plane_divides_zero_by_zero:
  "\<not> Plane_guard (Num 0) ex_ray_in_plane \<and>
   dneg (vy (dir ex_ray_in_plane)) = Num 0 \<and>
   intersect ex_plane ex_ray_in_plane probe = Some (True, ex_plane_nan_hit)"
  by (simp add: ex_plane_def ex_ray_in_plane_def ex_plane_nan_hit_def Plane_defs eval_defs)

subsection \<open>C5\<close>




subsection \<open>C6\<close>

text \<open>C6: in \<^verbatim>\<open>CsgOp::intersect\<close>, the sweep starts from the flags \<open>inL\<close>, \<open>inR\<close> that say
  whether the number of hits enumerated for the left child, respectively the right child,
  is odd.\<close>

theorem CsgOp_initial_flags:
  "findAllIntersections (intersect left) ray (Num 0) [] = Some L \<Longrightarrow>
   findAllIntersections (intersect right) ray (Num 0) [] = Some R \<Longrightarrow>
   intersect (CsgOp this boolOp left right) ray data =
     Some (CsgOp_sweep (addr_of left) boolOp (odd (length L), odd (length R)) (sort_by_dist (L @ R)) data)"
  by (simp add: odd_iff_mod_2_eq_one)

theorem CsgOp_initial_flags_witness:
  "findAllIntersections (intersect ex_union) ex_ray (Num 0) [] = Some [ex_hitA] \<and>
   findAllIntersections (intersect ex_cubeC) ex_ray (Num 0) [] = Some [ex_hitC1, ex_hitC2] \<and>
   intersect ex_nested ex_ray probe =
     Some (CsgOp_sweep 11 (\<and>) (True, False) (sort_by_dist [ex_hitA, ex_hitC1, ex_hitC2]) probe)"
proof -
  have L: "findAllIntersections (intersect ex_union) ex_ray (Num 0) [] = Some [ex_hitA]"
    by (simp add: ex_defs eval_defs findAllIntersections.simps)
  have R: "findAllIntersections (intersect ex_cubeC) ex_ray (Num 0) [] = Some [ex_hitC1, ex_hitC2]"
    by (simp add: ex_defs eval_defs findAllIntersections.simps)
  from CsgOp_initial_flags[OF L R, of 10 "(\<and>)" probe] L R
  show ?thesis by (simp add: ex_nested_def ex_union_def)
qed

subsection \<open>C7\<close>

text \<open>C7: \<^verbatim>\<open>Sphere::intersect\<close> reports no hit when the discriminant is negative; otherwise
  its candidate is the root \<open>x2 = (-B - sqrt Dscr) / 2A\<close>, which is never above \<open>x1\<close>, when
  \<open>x2\<close> is not negative, and the root \<open>x1\<close> when \<open>x2\<close> is negative; it reports no hit when both
  are negative, and otherwise accepts the candidate exactly when it does not exceed the
  distance of the record.\<close>

theorem Sphere_root_selection:
  "(dlt (Sphere_Dscr center R ray) (Num 0) \<longrightarrow>
      intersect (Sphere this center R) ray info = Some (False, info)) \<and>
   (\<not> dlt (Sphere_Dscr center R ray) (Num 0) \<longrightarrow>
      (\<not> dlt (Sphere_x2 center R ray) (Num 0) \<longrightarrow> Sphere_sol center R ray = Sphere_x2 center R ray) \<and>
      (dlt (Sphere_x2 center R ray) (Num 0) \<longrightarrow> Sphere_sol center R ray = Sphere_x1 center R ray) \<and>
      (dlt (Sphere_x2 center R ray) (Num 0) \<and> dlt (Sphere_x1 center R ray) (Num 0) \<longrightarrow>
         intersect (Sphere this center R) ray info = Some (False, info)) \<and>
      (dlt (Sphere_sol center R ray) (Num 0) \<or> dgt (Sphere_sol center R ray) (d_dist info) \<longrightarrow>
         intersect (Sphere this center R) ray info = Some (False, info)) \<and>
      (\<not> dlt (Sphere_sol center R ray) (Num 0) \<and> \<not> dgt (Sphere_sol center R ray) (d_dist info) \<longrightarrow>
         (\<exists>info'. intersect (Sphere this center R) ray info = Some (True, info') \<and>
                  d_dist info' = Sphere_sol center R ray))) \<and>
   \<not> dlt (Sphere_x1 center R ray) (Sphere_x2 center R ray)"
  by (simp add: Sphere_roots_ordered Sphere_intersect_def Sphere_sol_def Let_def)

theorem Sphere_root_selection_witness:
  "(\<not> dlt (Sphere_Dscr (Vector (Num 0) (Num 0) (Num 0)) (Num 1) ex_ray) (Num 0) \<and>
    \<not> dlt (Sphere_x2 (Vector (Num 0) (Num 0) (Num 0)) (Num 1) ex_ray) (Num 0) \<and>
    Sphere_sol (Vector (Num 0) (Num 0) (Num 0)) (Num 1) ex_ray = Num 4) \<and>
   (\<not> dlt (Sphere_Dscr (Vector (Num 0) (Num 0) (Num 0)) (Num 1) ex_ray_inside) (Num 0) \<and>
    dlt (Sphere_x2 (Vector (Num 0) (Num 0) (Num 0)) (Num 1) ex_ray_inside) (Num 0) \<and>
    Sphere_sol (Vector (Num 0) (Num 0) (Num 0)) (Num 1) ex_ray_inside = Num 1) \<and>
   (dlt (Sphere_Dscr (Vector (Num 10) (Num 0) (Num 0)) (Num 1) ex_ray) (Num 0) \<and>
    intersect ex_sphere_far ex_ray probe = Some (False, probe))"
proof -
  let ?c = "Vector (Num 0) (Num 0) (Num 0)"
  let ?f = "Vector (Num 10) (Num 0) (Num 0)"
  have a: "\<not> dlt (Sphere_Dscr ?c (Num 1) ex_ray) (Num 0)"
    "\<not> dlt (Sphere_x2 ?c (Num 1) ex_ray) (Num 0)" "Sphere_x2 ?c (Num 1) ex_ray = Num 4"
    by (simp_all add: Sphere_defs ex_ray_def)
  have b: "\<not> dlt (Sphere_Dscr ?c (Num 1) ex_ray_inside) (Num 0)"
    "dlt (Sphere_x2 ?c (Num 1) ex_ray_inside) (Num 0)" "Sphere_x1 ?c (Num 1) ex_ray_inside = Num 1"
    by (simp_all add: Sphere_defs ex_ray_inside_def)
  have c: "dlt (Sphere_Dscr ?f (Num 1) ex_ray) (Num 0)"
    by (simp add: Sphere_defs ex_ray_def)
  from Sphere_root_selection[of ?c "Num 1" ex_ray 4 probe] a
  have 1: "Sphere_sol ?c (Num 1) ex_ray = Num 4" by simp
  from Sphere_root_selection[of ?c "Num 1" ex_ray_inside 4 probe] b
  have 2: "Sphere_sol ?c (Num 1) ex_ray_inside = Num 1" by simp
  from Sphere_root_selection[of ?f "Num 1" ex_ray 6 probe] c
  have 3: "intersect ex_sphere_far ex_ray probe = Some (False, probe)"
    unfolding ex_sphere_far_def by blast
  from a b c 1 2 3 show ?thesis by blast
qed

subsection \<open>C8\<close>

text \<open>C8, as stated, fails: for a cube whose centre has a NaN x component the Y slab test
  accepts the face at distance 1, the X slab test then writes a NaN distance, against which
  the Z slab test accepts the face at distance 2; the hit returned is not the nearest
  candidate.\<close>

theorem Cube_nan_centre_counterexample:
  "intersectCubeSide (Num 2) ex_ray_skew (Vector NaN (Num 0) (Num 0)) probe = (True, ex_skew_y_hit) \<and>
   intersect ex_nan_cube ex_ray_skew probe = Some (True, ex_skew_hit) \<and>
   d_dist ex_skew_y_hit \<in> set (Cube_candidates (Vector NaN (Num 0) (Num 0)) (Num 2) ex_ray_skew) \<and>
   dlt (d_dist ex_skew_y_hit) (d_dist ex_skew_hit)"
  by (simp add: ex_nan_cube_def ex_ray_skew_def ex_skew_hit_def ex_skew_y_hit_def eval_defs
      Cube_candidates_def Cube_axis_candidates_def Cube_face_candidate_def Cube_face_t_def)

text \<open>C8, amended: for a ray, a centre and a side that are finite numbers, \<^verbatim>\<open>Cube::intersect\<close>
  tries the faces of all three axis pairs: it reports a hit exactly when one of the up to
  six forward, in-bounds face candidates does not exceed the distance of the record, the
  distance it writes is then the least of all candidates, and an axis whose direction
  component has magnitude below \<open>1e-9\<close> contributes no candidate.\<close>

theorem Cube_nearest_of_six:
  "finite_ray ray \<Longrightarrow> finite_vector center \<Longrightarrow> is_num side \<Longrightarrow>
   intersect (Cube this center side) ray data = Some (found, d') \<Longrightarrow>
     (found \<longleftrightarrow> list_ex (\<lambda>t. \<not> dgt t (d_dist data)) (Cube_candidates center side ray)) \<and>
     (found \<longrightarrow> d_dist d' \<in> set (Cube_candidates center side ray) \<and>
                list_all (\<lambda>t. \<not> dlt t (d_dist d')) (Cube_candidates center side ray)) \<and>
     (\<not> found \<longrightarrow> d' = data) \<and>
     length (Cube_candidates center side ray) \<le> 6 \<and>
     (dlt (fabs (component (dir ray) k)) (Num (1 / 10 ^ 9)) \<longrightarrow>
        Cube_axis_candidates center side ray k = [])"
proof -
  assume fin: "finite_ray ray" "finite_vector center" "is_num side"
    and r: "intersect (Cube this center side) ray data = Some (found, d')"
  from r have c: "Cube_intersect this center side ray data = (found, d')" by simp
  from Cube_intersect_nearest_inv[OF fin, of data this] c
  have "nearest_inv (d_dist data) (Cube_candidates center side ray) found (d_dist d')" by simp
  moreover from c have "\<not> found \<longrightarrow> d' = data" by (auto dest: Cube_intersect_False)
  moreover have "length (Cube_candidates center side ray) \<le> 6"
    by (simp add: Cube_candidates_def Cube_axis_candidates_def)
  moreover have "dlt (fabs (component (dir ray) k)) (Num (1 / 10 ^ 9)) \<longrightarrow>
        Cube_axis_candidates center side ray k = []"
    by (simp add: Cube_axis_candidates_def Cube_face_candidate_def Let_def)
  ultimately show ?thesis unfolding nearest_inv_def by blast
qed

theorem Cube_nearest_of_six_witness:
  "finite_ray ex_ray \<and> finite_vector (Vector (Num 0) (Num 0) (Num 0)) \<and> is_num (Num 2) \<and>
   intersect (Cube 1 (Vector (Num 0) (Num 0) (Num 0)) (Num 2)) ex_ray probe = Some (True, ex_hitA) \<and>
   Cube_candidates (Vector (Num 0) (Num 0) (Num 0)) (Num 2) ex_ray = [Num 4, Num 6] \<and>
   dlt (fabs (component (dir ex_ray) 0)) (Num (1 / 10 ^ 9)) \<and>
   Cube_axis_candidates (Vector (Num 0) (Num 0) (Num 0)) (Num 2) ex_ray 0 = [] \<and>
   d_dist ex_hitA \<in> set (Cube_candidates (Vector (Num 0) (Num 0) (Num 0)) (Num 2) ex_ray) \<and>
   list_all (\<lambda>t. \<not> dlt t (d_dist ex_hitA)) (Cube_candidates (Vector (Num 0) (Num 0) (Num 0)) (Num 2) ex_ray)"
proof -
  let ?c = "Vector (Num 0) (Num 0) (Num 0)"
  have f: "finite_ray ex_ray" "finite_vector ?c" "is_num (Num 2)"
    by (simp_all add: ex_ray_def finite_ray_def finite_vector_def)
  have r: "intersect (Cube 1 ?c (Num 2)) ex_ray probe = Some (True, ex_hitA)"
    by (simp add: ex_defs eval_defs)
  have c: "Cube_candidates ?c (Num 2) ex_ray = [Num 4, Num 6]"
    by (simp add: Cube_candidates_def Cube_axis_candidates_def Cube_face_candidate_def
        Cube_face_t_def ex_ray_def vadd_def vscale_def dgt_def Let_def)
  have g: "dlt (fabs (component (dir ex_ray) 0)) (Num (1 / 10 ^ 9))"
    by (simp add: ex_ray_def)
  from Cube_nearest_of_six[OF f r, of 0] f r c g show ?thesis by simp
qed

subsection \<open>C9\<close>

text \<open>C9, as stated, fails: for a ray of zero direction the sphere tester divides zero by
  zero, accepts the NaN root and returns true; NaN is not \<open>\<ge> 0\<close>.\<close>

theorem intersect_nan_dist_counterexample:
  "intersect ex_sphere ex_still_ray probe = Some (True, ex_nan_hit) \<and>
   \<not> dle (Num 0) (d_dist ex_nan_hit)"
  by (simp add: ex_sphere_def ex_still_ray_def ex_nan_hit_def Sphere_defs eval_defs)

text \<open>C9, amended: for every geometry variant, ray and record, a successful \<^verbatim>\<open>intersect\<close>
  never writes a negative distance: the distance is NaN or a number \<open>\<ge> 0\<close>, so no hit strictly
  behind the ray origin is reported.\<close>

theorem intersect_dist_never_negative:
  "intersect geom ray data = Some (True, d') \<Longrightarrow>
     \<not> dlt (d_dist d') (Num 0) \<and> (is_num (d_dist d') \<longrightarrow> dle (Num 0) (d_dist d'))"
proof -
  assume "intersect geom ray data = Some (True, d')"
  then have "\<not> dlt (d_dist d') (Num 0)" by (rule intersect_not_negative)
  then show ?thesis by (cases "d_dist d'") simp_all
qed

theorem intersect_dist_never_negative_witness:
  "intersect ex_cubeA ex_ray probe = Some (True, ex_hitA) \<and>
   \<not> dlt (d_dist ex_hitA) (Num 0) \<and> is_num (d_dist ex_hitA) \<and> dle (Num 0) (d_dist ex_hitA)"
proof -
  have r: "intersect ex_cubeA ex_ray probe = Some (True, ex_hitA)"
    by (simp add: ex_defs eval_defs)
  have n: "is_num (d_dist ex_hitA)" by (simp add: ex_hitA_def)
  from intersect_dist_never_negative[OF r] r n show ?thesis by simp
qed

subsection \<open>C10\<close>

text \<open>C10: when \<^verbatim>\<open>CsgOp::intersect\<close> returns true, the record it returns is one of the
  records enumerated for its children; its owner is a primitive leaf of the tree, the record
  is the one that leaf's tester wrote on a probe (up to the accumulated distance), and the
  owner is not the CSG node itself when the node's address differs from those of the
  leaves.\<close>

theorem CsgOp_owner_is_leaf:
  assumes "intersect (CsgOp this boolOp left right) ray data = Some (True, d')"
  shows "(\<exists>L R. findAllIntersections (intersect left) ray (Num 0) [] = Some L \<and>
             findAllIntersections (intersect right) ray (Num 0) [] = Some R \<and>
             d' \<in> set L \<union> set R) \<and>
         (\<exists>leaf\<in>set (leaves (CsgOp this boolOp left right)).
             is_primitive leaf \<and> d_g d' = addr_of leaf \<and>
             (\<exists>r' h'. intersect leaf r' probe = Some (True, h') \<and> d' = h'\<lparr>d_dist := d_dist d'\<rparr>)) \<and>
         (this \<notin> addr_of ` set (leaves (CsgOp this boolOp left right)) \<longrightarrow> d_g d' \<noteq> this)"
proof -
  have 1: "\<exists>L R. findAllIntersections (intersect left) ray (Num 0) [] = Some L \<and>
             findAllIntersections (intersect right) ray (Num 0) [] = Some R \<and>
             d' \<in> set L \<union> set R"
    using assms by (rule intersect_CsgOp_True) blast
  have 2: "\<exists>leaf\<in>set (leaves (CsgOp this boolOp left right)).
             is_primitive leaf \<and> d_g d' = addr_of leaf \<and>
             (\<exists>r' h'. intersect leaf r' probe = Some (True, h') \<and> d' = h'\<lparr>d_dist := d_dist d'\<rparr>)"
    by (rule produced_CsgOp[OF produced_probe produced_probe assms])
  from 2 have 3: "this \<notin> addr_of ` set (leaves (CsgOp this boolOp left right)) \<longrightarrow> d_g d' \<noteq> this"
    by (metis imageI)
  from 1 2 3 show ?thesis by blast
qed

theorem CsgOp_owner_is_leaf_witness:
  "intersect ex_nested ex_ray probe = Some (True, ex_hitA) \<and>
   d_g ex_hitA \<in> addr_of ` set (leaves ex_nested) \<and> d_g ex_hitA \<noteq> addr_of ex_nested"
proof -
  have r: "intersect (CsgOp 10 (\<and>) ex_union ex_cubeC) ex_ray probe = Some (True, ex_hitA)"
    by (simp add: ex_defs eval_defs findAllIntersections.simps)
  have n: "10 \<notin> addr_of ` set (leaves (CsgOp 10 (\<and>) ex_union ex_cubeC))"
    by (simp add: ex_defs)
  from CsgOp_owner_is_leaf[OF r] have
    a: "\<exists>leaf\<in>set (leaves (CsgOp 10 (\<and>) ex_union ex_cubeC)). d_g ex_hitA = addr_of leaf"
    and b: "10 \<notin> addr_of ` set (leaves (CsgOp 10 (\<and>) ex_union ex_cubeC)) \<longrightarrow> d_g ex_hitA \<noteq> 10"
    by blast+
  from a have "d_g ex_hitA \<in> addr_of ` set (leaves (CsgOp 10 (\<and>) ex_union ex_cubeC))" by blast
  with b n r show ?thesis by (simp add: ex_nested_def)
qed

end
